theory Spec2Isabelle
  imports Main "HOL-Library.Word"
begin

section \<open>GRUB on IEEE1275 (Open Firmware): \<open>grub-core/kern/ieee1275/init.c\<close>\<close>

text \<open>
  A shallow embedding of the heap claiming code (\<open>heap_size\<close>, \<open>heap_init\<close>,
  \<open>grub_claim_heap\<close>), of the boot location resolver
  (\<open>grub_machine_get_bootlocation\<close>) and of the \<open>bootargs\<close> importer
  (\<open>grub_parse_cmdline\<close>). The i386 and powerpc variants are modelled (the sparc
  variant of \<open>grub_claim_heap\<close> is a different function behind \<open>#ifdef __sparc__\<close>).
\<close>

subsection \<open>Machine integers and the platform\<close>

type_synonym grub_uint64_t = "64 word"
type_synonym grub_uint32_t = "32 word"

text \<open>\<open>grub_err_t\<close>: \<open>GRUB_ERR_NONE\<close> is 0, every error is non-zero.\<close>

type_synonym grub_err_t = int

text \<open>
  \<open>grub_memory_type_t\<close> (\<open>grub/memory.h\<close>, not part of this file):
  \<open>GRUB_MEMORY_AVAILABLE\<close> is 1, the value \<open>grub_claim_heap\<close> passes as a literal
  for the static heap window.
\<close>

type_synonym grub_memory_type_t = int

definition GRUB_MEMORY_AVAILABLE :: grub_memory_type_t where
  "GRUB_MEMORY_AVAILABLE = 1"

datatype arch = I386 | PowerPC

text \<open>
  \<open>#ifdef __i386__ #define HEAP_MAX_SIZE (unsigned long) (64 * 1024 * 1024)\<close>,
  otherwise \<open>(unsigned long) (1 * 1024 * 1024 * 1024)\<close>.
\<close>

fun HEAP_MAX_SIZE :: "arch \<Rightarrow> grub_uint32_t" where
  "HEAP_MAX_SIZE I386 = 64 * 1024 * 1024"
| "HEAP_MAX_SIZE PowerPC = 1 * 1024 * 1024 * 1024"

text \<open>
  What the code reads from its surroundings and this file does not define: the linker
  symbols \<open>_start\<close> and \<open>_end\<close> (as \<open>(grub_addr_t) _start\<close>, \<open>(grub_addr_t) _end\<close>,
  zero-extended for the 64-bit comparisons), the two firmware flags read with
  \<open>grub_ieee1275_test_flag\<close>, and the macros \<open>GRUB_IEEE1275_STATIC_HEAP_START\<close> and
  \<open>GRUB_IEEE1275_STATIC_HEAP_LEN\<close>.
\<close>

record platform =
  cpu :: arch
  kernel_start :: grub_uint64_t
  kernel_end :: grub_uint64_t
  FLAG_NO_PRE1_5M_CLAIM :: bool
  FLAG_FORCE_CLAIM :: bool
  STATIC_HEAP_START :: grub_uint64_t
  STATIC_HEAP_LEN :: grub_uint64_t

text \<open>
  The state the claim pass works on. \<open>grub_claimmap\<close> is a firmware call: it is a
  parameter of the model, a function from the address, the size and the firmware's state
  to an error code and the firmware's next state. \<open>claimmap_calls\<close> lists every call
  issued to it, \<open>mm_regions\<close> every region handed to \<open>grub_mm_init_region\<close>, and
  \<open>console\<close> every line printed with \<open>grub_printf\<close>, each in order.
\<close>

record 'fw machine =
  firmware :: 'fw
  claimmap_calls :: "(grub_uint64_t \<times> grub_uint64_t) list"
  mm_regions :: "(grub_uint64_t \<times> grub_uint64_t) list"
  console :: "string list"

type_synonym 'fw claimmap = "grub_uint64_t \<Rightarrow> grub_uint64_t \<Rightarrow> 'fw \<Rightarrow> grub_err_t \<times> 'fw"

type_synonym extent = "grub_uint64_t \<times> grub_uint64_t \<times> grub_memory_type_t"

subsection \<open>The size pass: \<open>heap_size\<close>\<close>

text \<open>
  \<open>total\<close> is a \<open>grub_uint32_t\<close>: \<open>total += len\<close> adds the 64-bit \<open>len\<close> and
  keeps the low 32 bits. The function always returns 0.
\<close>

definition heap_size ::
  "grub_uint64_t \<Rightarrow> grub_uint64_t \<Rightarrow> grub_memory_type_t \<Rightarrow> grub_uint32_t \<Rightarrow> int \<times> grub_uint32_t"
where
  "heap_size addr len type data =
     (let total = data in
      if type \<noteq> GRUB_MEMORY_AVAILABLE then (0, data)
      else if addr > 0xffffffff then (0, data)
      else
        let len = (if addr + len > 0xffffffff then 0xffffffff - addr else len);
            total = total + ucast len
        in (0, total))"

subsection \<open>The claim pass: \<open>heap_init\<close>\<close>

text \<open>
  Lines 179 to 197 of \<open>heap_init\<close>: the 4 GiB check and clip, the
  \<open>GRUB_IEEE1275_FLAG_NO_PRE1_5M_CLAIM\<close> block and \<open>len -= 1\<close>. \<open>None\<close> is one of
  the two \<open>return 0\<close>; otherwise the address and length the rest of the function works
  on. All arithmetic is \<open>grub_uint64_t\<close> arithmetic and wraps.
\<close>

definition heap_init_trim ::
  "platform \<Rightarrow> grub_uint64_t \<Rightarrow> grub_uint64_t \<Rightarrow> (grub_uint64_t \<times> grub_uint64_t) option"
where
  "heap_init_trim P addr len =
     (if addr > 0xffffffff then None
      else
        let len = (if addr + len > 0xffffffff then 0xffffffff - addr else len) in
        if FLAG_NO_PRE1_5M_CLAIM P \<and> addr + len \<le> 0x180000 then None
        else
          let (addr, len) =
                (if FLAG_NO_PRE1_5M_CLAIM P \<and> addr < 0x180000
                 then (0x180000, addr + len - 0x180000) else (addr, len))
          in Some (addr, len - 1))"

definition own_code_warning :: string where
  "own_code_warning = ''Warning: attempt to claim over our own code!''"

text \<open>
  Lines 204 to 220: the guard against claiming over the loaded image, the 768 MB rule
  and the clip to the remaining budget \<open>total\<close> (the value behind \<open>data\<close>). The
  result is the address, the length and whether the warning is printed.
\<close>

definition heap_init_guards ::
  "platform \<Rightarrow> grub_uint32_t \<Rightarrow> grub_uint64_t \<Rightarrow> grub_uint64_t
     \<Rightarrow> grub_uint64_t \<times> grub_uint64_t \<times> bool"
where
  "heap_init_guards P data addr len =
     (let total = data;
          warn = (addr < kernel_end P \<and> addr + len > kernel_start P);
          len = (if warn then 0 else len);
          (addr, len) =
            (if addr < 0x30000000 \<and> addr + len > 0x30000000
             then (0x30000000, len - (0x30000000 - addr)) else (addr, len));
          len = (if len > ucast total then ucast total else len)
      in (addr, len, warn))"

text \<open>
  \<open>heap_init\<close> itself. \<open>data\<close> is the \<open>grub_uint32_t\<close> behind the \<open>void *\<close>; it is
  written back only on the path that reaches line 233. The values handed to
  \<open>grub_claimmap\<close> and \<open>grub_mm_init_region\<close> are converted to \<open>grub_addr_t\<close> and
  \<open>grub_size_t\<close> there; both are below \<open>2 ^ 32\<close> (lemma \<open>heap_init_guards_bounds\<close>),
  so the conversion keeps them.
\<close>

definition heap_init ::
  "platform \<Rightarrow> 'fw claimmap \<Rightarrow> grub_uint64_t \<Rightarrow> grub_uint64_t \<Rightarrow> grub_memory_type_t
     \<Rightarrow> grub_uint32_t \<times> 'fw machine \<Rightarrow> int \<times> grub_uint32_t \<times> 'fw machine"
where
  "heap_init P grub_claimmap addr len type st =
     (let (data, m) = st; total = data in
      if type \<noteq> GRUB_MEMORY_AVAILABLE then (0, data, m)
      else
        case heap_init_trim P addr len of
          None \<Rightarrow> (0, data, m)
        | Some (addr, len) \<Rightarrow>
            let (addr, len, warn) = heap_init_guards P total addr len;
                m = (if warn then m\<lparr>console := console m @ [own_code_warning]\<rparr> else m)
            in
              if len \<noteq> 0 then
                let (err, fw) = grub_claimmap addr len (firmware m);
                    m = m\<lparr>firmware := fw, claimmap_calls := claimmap_calls m @ [(addr, len)]\<rparr>
                in
                  if err \<noteq> 0 then (err, data, m)
                  else
                    let m = m\<lparr>mm_regions := mm_regions m @ [(addr, len)]\<rparr>;
                        total = total - ucast len
                    in (if total = 0 then 1 else 0, total, m)
              else (if total = 0 then 1 else 0, total, m))"

subsection \<open>The memory map iterator and \<open>grub_claim_heap\<close>\<close>

text \<open>
  Modelled from the spec: \<open>grub_machine_mmap_iterate\<close> is not in this file. Section 4.1:
  "given a visitor function, invoke it once per firmware-reported memory extent, in
  firmware-supplied order, until either the map is exhausted or the visitor signals
  stop." The visitor signals stop by returning non-zero. The first component of the
  result lists the extents the visitor was invoked on.
\<close>

fun mmap_iterate_trace ::
  "(grub_uint64_t \<Rightarrow> grub_uint64_t \<Rightarrow> grub_memory_type_t \<Rightarrow> 's \<Rightarrow> int \<times> 's)
     \<Rightarrow> extent list \<Rightarrow> 's \<Rightarrow> extent list \<times> 's"
where
  "mmap_iterate_trace hook [] data = ([], data)"
| "mmap_iterate_trace hook ((addr, len, type) # rest) data =
     (case hook addr len type data of
        (r, data') \<Rightarrow>
          if r \<noteq> 0 then ([(addr, len, type)], data')
          else (case mmap_iterate_trace hook rest data' of
                  (visited, data'') \<Rightarrow> ((addr, len, type) # visited, data'')))"

text \<open>
  Modelled from the spec: \<open>grub_machine_mmap_iterate\<close> itself, section 4.1: "no side
  effects beyond invoking the visitor". Its outcome is the visitor's data after the last
  visit.
\<close>

definition grub_machine_mmap_iterate ::
  "(grub_uint64_t \<Rightarrow> grub_uint64_t \<Rightarrow> grub_memory_type_t \<Rightarrow> 's \<Rightarrow> int \<times> 's)
     \<Rightarrow> extent list \<Rightarrow> 's \<Rightarrow> 's"
where
  "grub_machine_mmap_iterate hook mmap data = snd (mmap_iterate_trace hook mmap data)"

text \<open>
  \<open>static void grub_claim_heap (void)\<close>: the function returns nothing, so its outcome
  is the machine it leaves. \<open>mmap\<close> is the firmware's memory map, the same in both
  passes. The value \<open>heap_init\<close> returns for the static window is discarded.
\<close>

definition grub_claim_heap ::
  "platform \<Rightarrow> 'fw claimmap \<Rightarrow> extent list \<Rightarrow> 'fw machine \<Rightarrow> 'fw machine"
where
  "grub_claim_heap P grub_claimmap mmap m =
     (let total = 0 in
      if FLAG_FORCE_CLAIM P then
        snd (snd (heap_init P grub_claimmap (STATIC_HEAP_START P) (STATIC_HEAP_LEN P) 1
                    (total, m)))
      else
        let total = grub_machine_mmap_iterate heap_size mmap total;
            total = total div 4;
            total = (if total > HEAP_MAX_SIZE (cpu P) then HEAP_MAX_SIZE (cpu P) else total)
        in snd (grub_machine_mmap_iterate (heap_init P grub_claimmap) mmap (total, m)))"

subsection \<open>Boot location: \<open>grub_machine_get_bootlocation\<close>\<close>

text \<open>
  C strings returned by the firmware helpers are modelled by their characters, without
  the terminating NUL; a \<open>NULL\<close> pointer is \<open>None\<close>. The path separator of Open
  Firmware is the backslash, character code \<open>0x5C\<close>.
\<close>

definition backslash :: char where
  "backslash = CHR 0x5C"

text \<open>
  Modelled from the spec: \<open>grub_strchr\<close> is declared in \<open>grub/misc.h\<close> and is not in
  this file. Section 4.5: "find the next" and "find the first" occurrence. On the
  characters of a C string: the index of the first occurrence of \<open>c\<close>, \<open>None\<close> (a
  \<open>NULL\<close> result) when there is none.
\<close>

fun grub_strchr :: "string \<Rightarrow> char \<Rightarrow> nat option" where
  "grub_strchr [] c = None"
| "grub_strchr (x # s) c = (if x = c then Some 0 else map_option Suc (grub_strchr s c))"

text \<open>
  Modelled from the spec: \<open>grub_strrchr\<close> (\<open>grub/misc.h\<close>, not in this file), section
  4.4: "locate the last directory separator". The scan goes through the string once,
  \<open>i\<close> is the index of the character at hand and \<open>p\<close> the last match so far.
\<close>

fun grub_strrchr_from :: "string \<Rightarrow> char \<Rightarrow> nat \<Rightarrow> nat option \<Rightarrow> nat option" where
  "grub_strrchr_from [] c i p = p"
| "grub_strrchr_from (x # s) c i p = grub_strrchr_from s c (Suc i) (if x = c then Some i else p)"

text \<open>
  Modelled from the spec: \<open>grub_strrchr\<close> itself, the scan from index 0 with no match
  yet.
\<close>

definition grub_strrchr :: "string \<Rightarrow> char \<Rightarrow> nat option" where
  "grub_strrchr s c = grub_strrchr_from s c 0 None"

text \<open>
  \<open>grub_translate_ieee1275_path\<close>: while the path holds a backslash, the first one is
  overwritten with a slash.
\<close>

lemma grub_strchr_Some: "grub_strchr s c = Some i \<Longrightarrow> i < length s \<and> s ! i = c"
  by (induction s arbitrary: i) (auto split: if_splits)

lemma count_update_less:
  "i < length s \<Longrightarrow> s ! i = c \<Longrightarrow> d \<noteq> c \<Longrightarrow>
     length (filter (\<lambda>x. x = c) (s[i := d])) < length (filter (\<lambda>x. x = c) s)"
proof (induction s arbitrary: i)
  case Nil
  then show ?case by simp
next
  case (Cons x s)
  then show ?case by (cases i) auto
qed

function grub_translate_ieee1275_path :: "string \<Rightarrow> string" where
  "grub_translate_ieee1275_path filepath =
     (case grub_strchr filepath backslash of
        None \<Rightarrow> filepath
      | Some i \<Rightarrow> grub_translate_ieee1275_path (filepath[i := CHR ''/'']))"
  by pat_completeness auto
termination
proof (relation "measure (\<lambda>filepath. length (filter (\<lambda>x. x = backslash) filepath))")
  show "wf (measure (\<lambda>filepath. length (filter (\<lambda>x. x = backslash) filepath)))" by simp
next
  fix filepath i
  assume "grub_strchr filepath backslash = Some i"
  then have "i < length filepath \<and> filepath ! i = backslash" by (rule grub_strchr_Some)
  moreover have "CHR ''/'' \<noteq> backslash" by (simp add: backslash_def)
  ultimately show "(filepath[i := CHR ''/''], filepath)
      \<in> measure (\<lambda>filepath. length (filter (\<lambda>x. x = backslash) filepath))"
    by (simp add: count_update_less)
qed

declare grub_translate_ieee1275_path.simps [simp del]

text \<open>
  The loop of the network branch, with \<open>ptr\<close> as the offset \<open>ptr - canon\<close>:
  \<open>while (ptr > canon && ( *ptr == ',' || *ptr == ':')) ptr--;\<close>. It starts at
  \<open>grub_strlen (canon) - 1\<close>, which is \<open>-1\<close> for the empty string.
\<close>

function bootlocation_strip_loop :: "string \<Rightarrow> int \<Rightarrow> int" where
  "bootlocation_strip_loop canon ptr =
     (if ptr > 0 \<and> (canon ! nat ptr = CHR '','' \<or> canon ! nat ptr = CHR '':'')
      then bootlocation_strip_loop canon (ptr - 1) else ptr)"
  by pat_completeness auto
termination
  by (relation "measure (\<lambda>(canon, ptr). nat ptr)") auto

declare bootlocation_strip_loop.simps [simp del]

text \<open>\<open>ptr++; *ptr = 0;\<close> after the loop: the string is cut at the new \<open>ptr\<close>.\<close>

definition bootlocation_strip :: "string \<Rightarrow> string" where
  "bootlocation_strip canon =
     (let ptr = int (length canon) - 1;
          ptr = bootlocation_strip_loop canon ptr;
          ptr = ptr + 1
      in take (nat ptr) canon)"

text \<open>
  For comparison with \<open>bootlocation_strip\<close>, the words of the specification, "stripped
  of trailing \<open>,\<close>/\<open>:\<close> characters": every trailing comma and colon is removed.
\<close>

definition strip_all_trailing :: "string \<Rightarrow> string" where
  "strip_all_trailing s = rev (dropWhile (\<lambda>c. c = CHR '','' \<or> c = CHR '':'') (rev s))"

text \<open>
  The firmware helpers and the callback \<open>grub_ieee1275_net_config\<close>, none of them in
  this file, are parameters. The callback gets \<open>canon\<close>, the two out-pointers and
  \<open>bootpath\<close>; in the model it maps the current \<open>( *device, *path)\<close> to the new pair.
  An unset function pointer is \<open>None\<close>.
\<close>

type_synonym bootlocation = "string option \<times> string option"

record ieee1275 =
  grub_ieee1275_get_boot_dev :: "string option"
  grub_ieee1275_get_device_type :: "string \<Rightarrow> string option"
  grub_ieee1275_get_aliasdevname :: "string \<Rightarrow> string option"
  grub_ieee1275_canonicalise_devname :: "string option \<Rightarrow> string option"
  grub_ieee1275_net_config :: "(string \<Rightarrow> bootlocation \<Rightarrow> string \<Rightarrow> bootlocation) option"
  grub_ieee1275_get_filename :: "string \<Rightarrow> string option"
  grub_ieee1275_encode_devname :: "string \<Rightarrow> string option"

text \<open>
  \<open>grub_machine_get_bootlocation (char **device, char **path)\<close>: the argument pair is
  what \<open>*device\<close> and \<open>*path\<close> hold on entry, the result what they hold on return.
\<close>

definition grub_machine_get_bootlocation :: "ieee1275 \<Rightarrow> bootlocation \<Rightarrow> bootlocation" where
  "grub_machine_get_bootlocation F out =
     (let (device, path) = out in
      case grub_ieee1275_get_boot_dev F of
        None \<Rightarrow> (device, path)
      | Some bootpath \<Rightarrow>
          let type = grub_ieee1275_get_device_type F bootpath in
          if type = Some ''network'' then
            let dev = grub_ieee1275_get_aliasdevname F bootpath;
                canon = grub_ieee1275_canonicalise_devname F dev
            in case canon of
                 None \<Rightarrow> (device, path)
               | Some canon \<Rightarrow>
                   let canon = bootlocation_strip canon in
                   (case grub_ieee1275_net_config F of
                      None \<Rightarrow> (device, path)
                    | Some net_config \<Rightarrow> net_config canon (device, path) bootpath)
          else
            let filename = grub_ieee1275_get_filename F bootpath;
                path =
                  (case filename of
                     None \<Rightarrow> path
                   | Some filename \<Rightarrow>
                       (case grub_strrchr filename backslash of
                          None \<Rightarrow> path
                        | Some lastslash \<Rightarrow>
                            Some (grub_translate_ieee1275_path (take lastslash filename))));
                device = grub_ieee1275_encode_devname F bootpath
            in (device, path))"

subsection \<open>The \<open>bootargs\<close> importer: \<open>grub_parse_cmdline\<close>\<close>

text \<open>
  \<open>char args[256]\<close> is modelled by the bytes \<open>grub_ieee1275_get_property\<close> wrote into
  it, the terminating NUL of the property included. The bytes after them are
  uninitialised; a read that runs past the written bytes is undefined behaviour and is
  \<open>None\<close> in the model.
\<close>

definition NUL :: char where
  "NUL = CHR 0x00"

text \<open>
  Modelled from the spec: \<open>grub_isspace\<close> is declared in \<open>grub/misc.h\<close> and is not in
  this file. Section 4.5: "advance past the delimiter and any following whitespace":
  space, tab, newline and carriage return.
\<close>

definition grub_isspace :: "char \<Rightarrow> bool" where
  "grub_isspace c = (c = CHR 0x0A \<or> c = CHR 0x0D \<or> c = CHR '' '' \<or> c = CHR 0x09)"

text \<open>
  Modelled from the spec: \<open>grub_strchr\<close> again, on the bytes from a pointer into
  \<open>args\<close> to the end of the written bytes: \<open>Some (Some k)\<close> when \<open>c\<close> is found
  \<open>k\<close> bytes after the pointer, before any NUL; \<open>Some None\<close> (\<open>NULL\<close>) when a NUL
  comes first; \<open>None\<close> when neither is among the written bytes.
\<close>

fun grub_strchr_buf :: "char list \<Rightarrow> char \<Rightarrow> nat option option" where
  "grub_strchr_buf [] c = None"
| "grub_strchr_buf (x # s) c =
     (if x = c then Some (Some 0)
      else if x = NUL then Some None
      else map_option (map_option Suc) (grub_strchr_buf s c))"

text \<open>The C string that starts at a pointer into \<open>args\<close>: its characters up to the NUL.\<close>

fun cstring_buf :: "char list \<Rightarrow> string option" where
  "cstring_buf [] = None"
| "cstring_buf (x # s) = (if x = NUL then Some [] else map_option ((#) x) (cstring_buf s))"

text \<open>The environment: the calls \<open>grub_env_set (name, val)\<close>, in order.\<close>

type_synonym grub_env = "(string \<times> string) list"

text \<open>\<open>while (grub_isspace(args[i])) i++;\<close>\<close>

function cmdline_skip_space :: "char list \<Rightarrow> nat \<Rightarrow> nat option" where
  "cmdline_skip_space args i =
     (if i < length args
      then (if grub_isspace (args ! i) then cmdline_skip_space args (Suc i) else Some i)
      else None)"
  by pat_completeness auto
termination
  by (relation "measure (\<lambda>(args, i). length args - i)") auto

declare cmdline_skip_space.simps [simp del]

text \<open>
  Lines 292 to 298, "Process command": \<open>command\<close> is the offset of the command in
  \<open>args\<close>. The result is the buffer (with \<open>*val = 0\<close> written) and the environment.
\<close>

definition cmdline_command :: "char list \<Rightarrow> nat \<Rightarrow> grub_env \<Rightarrow> (char list \<times> grub_env) option" where
  "cmdline_command args command env =
     (case grub_strchr_buf (drop command args) (CHR ''='') of
        None \<Rightarrow> None
      | Some None \<Rightarrow> Some (args, env)
      | Some (Some val) \<Rightarrow>
          let args = args[command + val := NUL] in
          (case (cstring_buf (drop command args), cstring_buf (drop (command + val + 1) args)) of
             (Some name, Some v) \<Rightarrow> Some (args, env @ [(name, v)])
           | _ \<Rightarrow> None))"

lemma cmdline_skip_space_ge: "cmdline_skip_space args i = Some j \<Longrightarrow> i \<le> j"
proof (induction args i rule: cmdline_skip_space.induct)
  case (1 args i)
  then show ?case
    by (subst (asm) (2) cmdline_skip_space.simps) (auto split: if_splits)
qed

text \<open>The loop \<open>while (i < actual)\<close> of \<open>grub_parse_cmdline\<close>.\<close>

function cmdline_loop :: "int \<Rightarrow> char list \<Rightarrow> nat \<Rightarrow> grub_env \<Rightarrow> grub_env option" where
  "cmdline_loop actual args i env =
     (if int i < actual then
        (case grub_strchr_buf (drop i args) (CHR '';'') of
           None \<Rightarrow> None
         | Some None \<Rightarrow>
             (case cmdline_command args i env of
                None \<Rightarrow> None
              | Some (args, env) \<Rightarrow> cmdline_loop actual args (nat actual) env)
         | Some (Some e) \<Rightarrow>
             (let args = args[i + e := NUL] in
              case cmdline_skip_space args (i + e + 1) of
                None \<Rightarrow> None
              | Some i' \<Rightarrow>
                  (case cmdline_command args i env of
                     None \<Rightarrow> None
                   | Some (args, env) \<Rightarrow> cmdline_loop actual args i' env)))
      else Some env)"
  by pat_completeness auto
termination
proof (relation "measure (\<lambda>(actual, args, i, env). nat actual - i)")
  show "wf (measure (\<lambda>(actual, args, i, env). nat actual - i))" by simp
next
  fix actual :: int and args :: "char list" and i :: nat and env :: grub_env
    and x2 :: "char list \<times> grub_env" and x y
  assume "int i < actual"
  then show "((actual, x, nat actual, y), actual, args, i, env)
      \<in> measure (\<lambda>(actual, args, i, env). nat actual - i)"
    by simp
next
  fix actual :: int and args :: "char list" and i :: nat and env :: grub_env
    and e :: nat and xa :: "char list" and i' :: nat and x y
  assume "int i < actual" and "xa = args[i + e := NUL]"
    and "cmdline_skip_space xa (i + e + 1) = Some i'"
  then have "i < i'" and "i < nat actual"
    using cmdline_skip_space_ge [of xa "i + e + 1" i'] by auto
  then show "((actual, x, i', y), actual, args, i, env)
      \<in> measure (\<lambda>(actual, args, i, env). nat actual - i)"
    by simp
qed

declare cmdline_loop.simps [simp del]

text \<open>
  \<open>grub_parse_cmdline\<close>: \<open>bootargs\<close> is \<open>None\<close> when \<open>grub_ieee1275_get_property\<close>
  does not return 0 (the property is absent), otherwise the bytes it wrote and
  \<open>actual\<close>.
\<close>

definition grub_parse_cmdline :: "(char list \<times> int) option \<Rightarrow> grub_env \<Rightarrow> grub_env option" where
  "grub_parse_cmdline bootargs env =
     (case bootargs of
        None \<Rightarrow> Some env
      | Some (args, actual) \<Rightarrow>
          if actual > 1 then (let i = 0 in cmdline_loop actual args i env) else Some env)"

subsection \<open>Example inputs\<close>

text \<open>
  A powerpc machine whose image lies at \<open>[0x200000, 0x300000)\<close>, the same machine with
  the static heap flag set, a firmware that grants every claim, one that refuses every
  claim with error 3, a machine on which nothing has been claimed yet, and a memory map
  of one Available extent of 16 MiB at 16 MiB.
\<close>

definition ex_platform :: platform where
  "ex_platform = \<lparr>cpu = PowerPC, kernel_start = 0x200000, kernel_end = 0x300000,
     FLAG_NO_PRE1_5M_CLAIM = False, FLAG_FORCE_CLAIM = False,
     STATIC_HEAP_START = 0x1000000, STATIC_HEAP_LEN = 0x1000000\<rparr>"

definition ex_force_claim :: platform where
  "ex_force_claim = ex_platform\<lparr>FLAG_FORCE_CLAIM := True\<rparr>"

definition claim_ok :: "unit claimmap" where
  "claim_ok addr len fw = (0, fw)"

definition claim_refused :: "unit claimmap" where
  "claim_refused addr len fw = (3, fw)"

definition machine0 :: "unit machine" where
  "machine0 = \<lparr>firmware = (), claimmap_calls = [], mm_regions = [], console = []\<rparr>"

text \<open>
  The machine \<open>ex_platform\<close> with \<open>GRUB_IEEE1275_FLAG_NO_PRE1_5M_CLAIM\<close> set, once
  with its image moved to \<open>[0x100000, 0x170000)\<close>, below the boundary \<open>0x180000\<close>,
  and once with the image where it was.
\<close>

definition ex_low_image :: platform where
  "ex_low_image = ex_platform\<lparr>kernel_start := 0x100000, kernel_end := 0x170000,
     FLAG_NO_PRE1_5M_CLAIM := True\<rparr>"

definition ex_no_pre1_5m :: platform where
  "ex_no_pre1_5m = ex_platform\<lparr>FLAG_NO_PRE1_5M_CLAIM := True\<rparr>"

definition ex_mmap :: "extent list" where
  "ex_mmap = [(0x1000000, 0x1000000, GRUB_MEMORY_AVAILABLE)]"

text \<open>
  The firmware file name of a boot file \<open>x\<close> in the directory \<open>boot/grub\<close>, written
  with backslashes; a network boot device whose canonical name ends in \<open>:,\<close>; the same
  with a canonical name that is a single colon; a disk boot device with that file name;
  and the same with a file name without any backslash.
\<close>

definition ex_filename :: string where
  "ex_filename = [backslash] @ ''boot'' @ [backslash] @ ''grub'' @ [backslash] @ ''x''"

definition ex_network :: ieee1275 where
  "ex_network = \<lparr>
     grub_ieee1275_get_boot_dev = Some ''/pci@f2000000/ethernet@f:speed=auto,duplex=auto'',
     grub_ieee1275_get_device_type = (\<lambda>bootpath. Some ''network''),
     grub_ieee1275_get_aliasdevname = (\<lambda>bootpath. Some ''enet''),
     grub_ieee1275_canonicalise_devname = (\<lambda>dev. Some ''/pci@f2000000/ethernet@f:,''),
     grub_ieee1275_net_config = Some (\<lambda>canon out bootpath. (Some canon, Some bootpath)),
     grub_ieee1275_get_filename = (\<lambda>bootpath. None),
     grub_ieee1275_encode_devname = (\<lambda>bootpath. Some ''ieee1275/enet'')\<rparr>"

definition ex_separators :: ieee1275 where
  "ex_separators = ex_network\<lparr>grub_ieee1275_canonicalise_devname := (\<lambda>dev. Some '':'')\<rparr>"

definition ex_disk :: ieee1275 where
  "ex_disk = \<lparr>
     grub_ieee1275_get_boot_dev = Some ''/pci@f4000000/ata-6@d/disk@0:3,'',
     grub_ieee1275_get_device_type = (\<lambda>bootpath. Some ''block''),
     grub_ieee1275_get_aliasdevname = (\<lambda>bootpath. Some ''hd''),
     grub_ieee1275_canonicalise_devname = (\<lambda>dev. Some ''/pci@f4000000/ata-6@d/disk@0''),
     grub_ieee1275_net_config = None,
     grub_ieee1275_get_filename = (\<lambda>bootpath. Some ex_filename),
     grub_ieee1275_encode_devname = (\<lambda>bootpath. Some ''ieee1275/hd,apple3'')\<rparr>"

definition ex_disk_flat :: ieee1275 where
  "ex_disk_flat = ex_disk\<lparr>grub_ieee1275_get_filename := (\<lambda>bootpath. Some ''grub.elf'')\<rparr>"

section \<open>Properties of the claim pass\<close>

subsection \<open>Words\<close>

lemma unat_ucast_32_64: "unat (ucast (d::32 word) :: 64 word) = unat d"
proof -
  have "unat d < 2 ^ 64" using unsigned_less [of d, where 'a = nat] by simp
  then show ?thesis by (simp add: unsigned_ucast_eq take_bit_nat_eq_self)
qed

lemma unat_ucast_64_32:
  assumes "(l::64 word) \<le> ucast (d::32 word)"
  shows "unat (ucast l :: 32 word) = unat l"
proof -
  have "unat l \<le> unat d" using assms by (simp add: word_le_nat_alt unat_ucast_32_64)
  moreover have "unat d < 2 ^ 32" using unsigned_less [of d, where 'a = nat] by simp
  ultimately show ?thesis by (simp add: unsigned_ucast_eq take_bit_nat_eq_self)
qed

lemma budget_sub:
  assumes "(l::64 word) \<le> ucast (d::32 word)"
  shows "unat l + unat (d - ucast l) = unat d"
proof -
  have le: "unat l \<le> unat d" using assms by (simp add: word_le_nat_alt unat_ucast_32_64)
  have u: "unat (ucast l :: 32 word) = unat l" by (rule unat_ucast_64_32 [OF assms])
  have "(ucast l :: 32 word) \<le> d" using le u by (simp add: word_le_nat_alt)
  then have "unat (d - ucast l) = unat d - unat (ucast l :: 32 word)" by (rule unat_sub)
  then show ?thesis using le u by simp
qed

subsection \<open>The paths through \<open>heap_init\<close>\<close>

lemma heap_size_returns_0: "fst (heap_size addr len type data) = 0"
  by (simp add: heap_size_def Let_def)

lemma heap_init_not_available:
  "type \<noteq> GRUB_MEMORY_AVAILABLE \<Longrightarrow> heap_init P cm addr len type (data, m) = (0, data, m)"
  by (simp add: heap_init_def)

lemma heap_init_skipped:
  "heap_init_trim P addr len = None \<Longrightarrow> heap_init P cm addr len type (data, m) = (0, data, m)"
  by (simp add: heap_init_def)

lemma heap_init_nothing_left:
  assumes "heap_init_trim P addr len = Some (a, l)"
      and "heap_init_guards P data a l = (a', 0, w)"
  shows "heap_init P cm addr len GRUB_MEMORY_AVAILABLE (data, m) =
           (if data = 0 then 1 else 0, data,
            if w then m\<lparr>console := console m @ [own_code_warning]\<rparr> else m)"
  using assms by (simp add: heap_init_def)

lemma heap_init_claim_refused:
  assumes "heap_init_trim P addr len = Some (a, l)"
      and "heap_init_guards P data a l = (a', l', w)" and "l' \<noteq> 0"
      and "cm a' l' (firmware m) = (err, fw)" and "err \<noteq> 0"
  shows "heap_init P cm addr len GRUB_MEMORY_AVAILABLE (data, m) =
           (err, data,
            (if w then m\<lparr>console := console m @ [own_code_warning]\<rparr> else m)
              \<lparr>firmware := fw, claimmap_calls := claimmap_calls m @ [(a', l')]\<rparr>)"
  using assms by (simp add: heap_init_def)

lemma heap_init_claimed:
  assumes "heap_init_trim P addr len = Some (a, l)"
      and "heap_init_guards P data a l = (a', l', w)" and "l' \<noteq> 0"
      and "cm a' l' (firmware m) = (0, fw)"
  shows "heap_init P cm addr len GRUB_MEMORY_AVAILABLE (data, m) =
           (if data - ucast l' = 0 then 1 else 0, data - ucast l',
            (if w then m\<lparr>console := console m @ [own_code_warning]\<rparr> else m)
              \<lparr>firmware := fw, claimmap_calls := claimmap_calls m @ [(a', l')],
                mm_regions := mm_regions m @ [(a', l')]\<rparr>)"
  using assms by (simp add: heap_init_def)

text \<open>Every call of \<open>heap_init\<close> takes exactly one of five paths.\<close>

lemma heap_init_cases:
  obtains (not_available) "type \<noteq> GRUB_MEMORY_AVAILABLE"
      "heap_init P cm addr len type (data, m) = (0, data, m)"
  | (skipped) "type = GRUB_MEMORY_AVAILABLE" "heap_init_trim P addr len = None"
      "heap_init P cm addr len type (data, m) = (0, data, m)"
  | (nothing_left) a l a' w where "type = GRUB_MEMORY_AVAILABLE"
      "heap_init_trim P addr len = Some (a, l)" "heap_init_guards P data a l = (a', 0, w)"
      "heap_init P cm addr len type (data, m) =
         (if data = 0 then 1 else 0, data,
          if w then m\<lparr>console := console m @ [own_code_warning]\<rparr> else m)"
  | (refused) a l a' l' w err fw where "type = GRUB_MEMORY_AVAILABLE"
      "heap_init_trim P addr len = Some (a, l)" "heap_init_guards P data a l = (a', l', w)"
      "l' \<noteq> 0" "cm a' l' (firmware m) = (err, fw)" "err \<noteq> 0"
      "heap_init P cm addr len type (data, m) =
         (err, data,
          (if w then m\<lparr>console := console m @ [own_code_warning]\<rparr> else m)
            \<lparr>firmware := fw, claimmap_calls := claimmap_calls m @ [(a', l')]\<rparr>)"
  | (claimed) a l a' l' w fw where "type = GRUB_MEMORY_AVAILABLE"
      "heap_init_trim P addr len = Some (a, l)" "heap_init_guards P data a l = (a', l', w)"
      "l' \<noteq> 0" "cm a' l' (firmware m) = (0, fw)"
      "heap_init P cm addr len type (data, m) =
         (if data - ucast l' = 0 then 1 else 0, data - ucast l',
          (if w then m\<lparr>console := console m @ [own_code_warning]\<rparr> else m)
            \<lparr>firmware := fw, claimmap_calls := claimmap_calls m @ [(a', l')],
              mm_regions := mm_regions m @ [(a', l')]\<rparr>)"
proof (cases "type = GRUB_MEMORY_AVAILABLE")
  case False
  then show ?thesis using not_available by (simp add: heap_init_not_available)
next
  case avail: True
  show ?thesis
  proof (cases "heap_init_trim P addr len")
    case None
    then show ?thesis using skipped avail by (simp add: heap_init_skipped)
  next
    case (Some al)
    obtain a l where al: "al = (a, l)" by (cases al)
    note t = Some [unfolded al]
    obtain a' l' w where g: "heap_init_guards P data a l = (a', l', w)"
      by (cases "heap_init_guards P data a l") auto
    obtain err fw where c: "cm a' l' (firmware m) = (err, fw)"
      by (cases "cm a' l' (firmware m)") auto
    consider "l' = 0" | "l' \<noteq> 0" "err \<noteq> 0" | "l' \<noteq> 0" "err = 0" by blast
    then show ?thesis
    proof cases
      case 1
      then show ?thesis
        using nothing_left [OF avail t g [unfolded 1]]
          heap_init_nothing_left [OF t g [unfolded 1], of cm m] avail by simp
    next
      case 2
      then show ?thesis
        using refused [OF avail t g _ c]
          heap_init_claim_refused [where cm = cm and m = m, OF t g _ c] avail by simp
    next
      case 3
      then show ?thesis
        using claimed [OF avail t g _ c [unfolded 3]]
          heap_init_claimed [where cm = cm and m = m, OF t g _ c [unfolded 3]] avail by simp
    qed
  qed
qed

lemma heap_init_guards_le:
  "heap_init_guards P data a l = (a', l', w) \<Longrightarrow> l' \<le> ucast data"
  by (auto simp: heap_init_guards_def Let_def split: if_splits prod.splits)

text \<open>
  What \<open>heap_init\<close> hands to \<open>grub_claimmap\<close> and \<open>grub_mm_init_region\<close> fits 32
  bits, so the conversions to \<open>grub_addr_t\<close> and \<open>grub_size_t\<close> lose nothing.
\<close>

lemma ucast_budget_le: "(ucast (d :: grub_uint32_t) :: grub_uint64_t) \<le> 0xffffffff"
proof -
  have "unat d < 2 ^ 32" using unsigned_less [of d, where 'a = nat] by simp
  then show ?thesis by (simp add: word_le_nat_alt unat_ucast_32_64)
qed

lemma heap_init_trim_addr:
  "heap_init_trim P addr len = Some (a, l) \<Longrightarrow> a \<le> 0xffffffff"
  by (auto simp: heap_init_trim_def Let_def not_less split: if_splits)

lemma heap_init_guards_bounds:
  assumes "heap_init_trim P addr len = Some (a, l)"
      and "heap_init_guards P data a l = (a', l', w)"
  shows "a' \<le> 0xffffffff \<and> l' \<le> 0xffffffff"
proof -
  have "a \<le> 0xffffffff" using assms(1) by (rule heap_init_trim_addr)
  then have "a' \<le> 0xffffffff"
    using assms(2) by (auto simp: heap_init_guards_def Let_def split: if_splits prod.splits)
  moreover have "l' \<le> ucast data" using assms(2) by (rule heap_init_guards_le)
  then have "l' \<le> 0xffffffff" using ucast_budget_le [of data] by simp
  ultimately show ?thesis by simp
qed

lemma heap_init_guards_no_budget:
  "heap_init_guards P 0 a l = (a', l', w) \<Longrightarrow> l' = 0"
  by (auto simp: heap_init_guards_def Let_def word_gt_0 split: if_splits prod.splits)

text \<open>
  One visit: the regions registered are only added to, and what is added is taken off
  the budget.
\<close>

lemma heap_init_budget:
  assumes "heap_init P cm addr len type (data, m) = (r, data', m')"
  shows "\<exists>new. mm_regions m' = mm_regions m @ new \<and>
           sum_list (map (\<lambda>(a, l). unat l) new) + unat data' = unat data"
proof (cases P cm addr len type data m rule: heap_init_cases)
  case (claimed a l a' l' w fw)
  have "l' \<le> ucast data" using claimed(3) by (rule heap_init_guards_le)
  then show ?thesis using assms claimed budget_sub [of l' data] by (auto split: if_splits)
qed (use assms in \<open>auto split: if_splits\<close>)

lemma heap_init_no_budget:
  assumes "heap_init P cm addr len type (0, m) = (r, data', m')"
  shows "claimmap_calls m' = claimmap_calls m \<and> mm_regions m' = mm_regions m \<and>
         firmware m' = firmware m"
proof (cases P cm addr len type "0 :: grub_uint32_t" m rule: heap_init_cases)
  case (refused a l a' l' w err fw)
  then show ?thesis using heap_init_guards_no_budget [OF refused(3)] by simp
next
  case (claimed a l a' l' w fw)
  then show ?thesis using heap_init_guards_no_budget [OF claimed(3)] by simp
qed (use assms in \<open>auto split: if_splits\<close>)

text \<open>The same over a whole pass of the iterator, by induction on the memory map.\<close>

lemma claim_pass_budget:
  "mmap_iterate_trace (heap_init P cm) mmap (data, m) = (visited, data', m') \<Longrightarrow>
     \<exists>new. mm_regions m' = mm_regions m @ new \<and>
       sum_list (map (\<lambda>(a, l). unat l) new) + unat data' = unat data"
proof (induction mmap arbitrary: data m visited)
  case Nil
  then show ?case by simp
next
  case (Cons e mmap)
  obtain addr len type where e: "e = (addr, len, type)" by (cases e)
  obtain r d1 m1 where h: "heap_init P cm addr len type (data, m) = (r, d1, m1)"
    by (cases "heap_init P cm addr len type (data, m)") auto
  from heap_init_budget [OF h] obtain new1 where
    n1: "mm_regions m1 = mm_regions m @ new1"
      "sum_list (map (\<lambda>(a, l). unat l) new1) + unat d1 = unat data" by blast
  show ?case
  proof (cases "r = 0")
    case False
    then have "data' = d1 \<and> m' = m1" using Cons.prems e h by simp
    then show ?thesis using n1 by blast
  next
    case True
    obtain v2 where "mmap_iterate_trace (heap_init P cm) mmap (d1, m1) = (v2, data', m')"
      using Cons.prems e h True by (auto split: prod.splits)
    from Cons.IH [OF this] obtain new2 where
      n2: "mm_regions m' = mm_regions m1 @ new2"
        "sum_list (map (\<lambda>(a, l). unat l) new2) + unat data' = unat d1" by blast
    have "mm_regions m' = mm_regions m @ (new1 @ new2)" using n1 n2 by simp
    moreover have "sum_list (map (\<lambda>(a, l). unat l) (new1 @ new2)) + unat data' = unat data"
      using n1 n2 by simp
    ultimately show ?thesis by blast
  qed
qed

subsection \<open>The static heap window\<close>

text \<open>
  C1. The claim: with \<open>GRUB_IEEE1275_FLAG_FORCE_CLAIM\<close> set, \<open>grub_claim_heap\<close> claims
  the window \<open>(GRUB_IEEE1275_STATIC_HEAP_START, GRUB_IEEE1275_STATIC_HEAP_LEN)\<close> with an
  unlimited budget. The code calls \<open>heap_init\<close> for the window with \<open>total = 0\<close>, and
  \<open>heap_init\<close> reads \<open>total\<close> as the budget that is left: \<open>if (len > total) len = total\<close>
  leaves length 0. So for every platform with the flag set, every firmware and every
  memory map, \<open>grub_claim_heap\<close> issues no call to \<open>grub_claimmap\<close>, registers no region
  and leaves the firmware as it was. (That it does not iterate the memory map holds: the
  result does not depend on \<open>mmap\<close>.)
\<close>

theorem force_claim_claims_nothing:
  assumes "FLAG_FORCE_CLAIM P"
  shows "claimmap_calls (grub_claim_heap P cm mmap m) = claimmap_calls m \<and>
         mm_regions (grub_claim_heap P cm mmap m) = mm_regions m \<and>
         firmware (grub_claim_heap P cm mmap m) = firmware m"
proof -
  obtain r data' m' where
    h: "heap_init P cm (STATIC_HEAP_START P) (STATIC_HEAP_LEN P) 1 (0, m) = (r, data', m')"
    by (cases "heap_init P cm (STATIC_HEAP_START P) (STATIC_HEAP_LEN P) 1 (0, m)") auto
  have "grub_claim_heap P cm mmap m = m'" using assms h by (simp add: grub_claim_heap_def)
  then show ?thesis using heap_init_no_budget [OF h] by simp
qed

theorem force_claim_claims_nothing_witness:
  "FLAG_FORCE_CLAIM ex_force_claim \<and>
   claimmap_calls (grub_claim_heap ex_force_claim claim_ok [] machine0) = [] \<and>
   mm_regions (grub_claim_heap ex_force_claim claim_ok [] machine0) = [] \<and>
   firmware (grub_claim_heap ex_force_claim claim_ok [] machine0) = ()"
  using force_claim_claims_nothing [of ex_force_claim claim_ok "[]" machine0]
  by (simp add: ex_force_claim_def machine0_def)

subsection \<open>Extents of length zero\<close>

text \<open>
  C2. The claim: an Available extent whose length is zero after the trimming (reported
  with length zero, or clipped to zero at the ceiling) causes no claim, no region and no
  change of the budget. The code runs \<open>len -= 1\<close> on the 64-bit length before it tests
  \<open>if (len)\<close>: a length of 0 wraps to \<open>2 ^ 64 - 1\<close>, the clip to the budget makes it
  \<open>total\<close>, and the whole remaining budget is claimed at the extent's address. With a
  budget of \<open>0x1000\<close>: the extent \<open>(0x40000000, 0)\<close> makes \<open>heap_init\<close> claim and
  register \<open>(0x40000000, 0x1000)\<close> and return 1 with budget 0; so does the extent
  \<open>(0xffffffff, 1)\<close>, whose length the clip at \<open>0xffffffff\<close> sets to zero.
\<close>

theorem zero_length_extent_is_claimed:
  "heap_init ex_platform claim_ok 0x40000000 0 GRUB_MEMORY_AVAILABLE (0x1000, machine0) =
     (1, 0, machine0\<lparr>claimmap_calls := [(0x40000000, 0x1000)],
                     mm_regions := [(0x40000000, 0x1000)]\<rparr>) \<and>
   heap_init ex_platform claim_ok 0xffffffff 1 GRUB_MEMORY_AVAILABLE (0x1000, machine0) =
     (1, 0, machine0\<lparr>claimmap_calls := [(0xffffffff, 0x1000)],
                     mm_regions := [(0xffffffff, 0x1000)]\<rparr>)"
  by code_simp

subsection \<open>A claim the firmware refuses\<close>

text \<open>
  C3, as amended. Take any point of the claim pass: the budget is \<open>data\<close>, the machine
  \<open>m\<close> holds the regions registered so far, and the iterator is about to visit
  \<open>(addr, len, type)\<close> with \<open>rest\<close> still to come. If this visit issues the claim
  \<open>(a, l)\<close> and the firmware refuses it, then \<open>heap_init\<close> returns the firmware's error
  code, leaves the budget and the registered regions as they were (nothing is rolled
  back, nothing is added), and the iterator stops: the visited extents end with this one
  and the pass ends in the state this visit left. \<open>grub_claim_heap\<close> is a \<open>void\<close>
  function and drops the iterator's result, so the error goes no further than the
  iterator.
\<close>

theorem claim_failure_stops_pass:
  assumes "heap_init P cm addr len type (data, m) = (r, data', m')"
      and "claimmap_calls m' = claimmap_calls m @ [(a, l)]"
      and "fst (cm a l (firmware m)) \<noteq> 0"
  shows "r = fst (cm a l (firmware m)) \<and> data' = data \<and> mm_regions m' = mm_regions m \<and>
         mmap_iterate_trace (heap_init P cm) ((addr, len, type) # rest) (data, m) =
           ([(addr, len, type)], (data, m')) \<and>
         grub_machine_mmap_iterate (heap_init P cm) ((addr, len, type) # rest) (data, m) =
           (data, m')"
proof (cases P cm addr len type data m rule: heap_init_cases)
  case (refused a0 l0 a' l' w err fw)
  have al: "a = a' \<and> l = l'" using assms(1,2) refused(7) by (auto split: if_splits)
  then have r: "r = fst (cm a l (firmware m))" "data' = data" "mm_regions m' = mm_regions m"
    using assms(1) refused by (auto split: if_splits)
  have "r \<noteq> 0" using r(1) assms(3) by simp
  then have "mmap_iterate_trace (heap_init P cm) ((addr, len, type) # rest) (data, m) =
      ([(addr, len, type)], (data, m'))"
    using assms(1) r(2) by simp
  then show ?thesis using r by (simp add: grub_machine_mmap_iterate_def)
next
  case (claimed a0 l0 a' l' w fw)
  have "a = a' \<and> l = l'" using assms(1,2) claimed(6) by (auto split: if_splits)
  then show ?thesis using assms(3) claimed(5) by simp
qed (use assms in \<open>auto split: if_splits\<close>)

theorem claim_failure_stops_pass_witness:
  "heap_init ex_platform claim_refused 0x1000000 0x1000000 GRUB_MEMORY_AVAILABLE
     (0x400000, machine0) =
     (3, 0x400000, machine0\<lparr>claimmap_calls := [(0x1000000, 0x400000)]\<rparr>) \<and>
   claimmap_calls (machine0\<lparr>claimmap_calls := [(0x1000000, 0x400000)]\<rparr>) =
     claimmap_calls machine0 @ [(0x1000000, 0x400000)] \<and>
   fst (claim_refused 0x1000000 0x400000 (firmware machine0)) \<noteq> 0 \<and>
   mmap_iterate_trace (heap_init ex_platform claim_refused)
     ((0x1000000, 0x1000000, GRUB_MEMORY_AVAILABLE) # [(0x40000000, 0x1000000, GRUB_MEMORY_AVAILABLE)])
     (0x400000, machine0) =
     ([(0x1000000, 0x1000000, GRUB_MEMORY_AVAILABLE)],
      (0x400000, machine0\<lparr>claimmap_calls := [(0x1000000, 0x400000)]\<rparr>))"
proof -
  have h: "heap_init ex_platform claim_refused 0x1000000 0x1000000 GRUB_MEMORY_AVAILABLE
             (0x400000, machine0) =
           (3, 0x400000, machine0\<lparr>claimmap_calls := [(0x1000000, 0x400000)]\<rparr>)"
    by code_simp
  have c: "claimmap_calls (machine0\<lparr>claimmap_calls := [(0x1000000, 0x400000)]\<rparr>) =
      claimmap_calls machine0 @ [(0x1000000, 0x400000)]"
    by (simp add: machine0_def)
  have f: "fst (claim_refused 0x1000000 0x400000 (firmware machine0)) \<noteq> 0"
    by (simp add: claim_refused_def)
  show ?thesis
    using claim_failure_stops_pass [OF h c f,
        of "[(0x40000000, 0x1000000, GRUB_MEMORY_AVAILABLE)]"] h c f
    by blast
qed

text \<open>
  C3, the counterexample to "the failure is propagated as the orchestrator's result".
  On \<open>ex_mmap\<close> the budget is \<open>0x400000\<close>, the one claim \<open>(0x1000000, 0x400000)\<close>
  is refused and \<open>heap_init\<close> returns the error 3. \<open>grub_claim_heap\<close> then leaves the
  firmware, the registered regions and the console exactly as a run over an empty
  memory map does, in which nothing fails: its outcome does not tell a refused claim
  from no claim at all. (Only the model's record of the calls issued differs.)
\<close>

theorem claim_failure_not_reported:
  "fst (heap_init ex_platform claim_refused 0x1000000 0x1000000 GRUB_MEMORY_AVAILABLE
          (0x400000, machine0)) = 3 \<and>
   firmware (grub_claim_heap ex_platform claim_refused ex_mmap machine0) =
     firmware (grub_claim_heap ex_platform claim_refused [] machine0) \<and>
   mm_regions (grub_claim_heap ex_platform claim_refused ex_mmap machine0) =
     mm_regions (grub_claim_heap ex_platform claim_refused [] machine0) \<and>
   console (grub_claim_heap ex_platform claim_refused ex_mmap machine0) =
     console (grub_claim_heap ex_platform claim_refused [] machine0) \<and>
   claimmap_calls (grub_claim_heap ex_platform claim_refused ex_mmap machine0) =
     [(0x1000000, 0x400000)]"
  by code_simp

subsection \<open>The budget\<close>

text \<open>
  C4. For every platform, firmware, memory map and machine, the regions
  \<open>grub_claim_heap\<close> registers are appended to those already there, and their lengths
  sum to at most the derived budget: the total of the size pass divided by 4, capped at
  \<open>HEAP_MAX_SIZE\<close>. And at any point of the claim pass, a visit that starts with budget
  left and ends with budget 0 returns 1, so the iterator stops and visits none of the
  extents in \<open>rest\<close>.
\<close>

theorem claimed_total_within_budget:
  "(\<exists>new. mm_regions (grub_claim_heap P cm mmap m) = mm_regions m @ new \<and>
      sum_list (map (\<lambda>(a, l). unat l) new)
        \<le> unat (min (grub_machine_mmap_iterate heap_size mmap 0 div 4) (HEAP_MAX_SIZE (cpu P)))) \<and>
   (data \<noteq> 0 \<and> heap_init P cm addr len type (data, m0) = (r, 0, m') \<longrightarrow>
      r = 1 \<and>
      mmap_iterate_trace (heap_init P cm) ((addr, len, type) # rest) (data, m0) =
        ([(addr, len, type)], (0, m')))"
proof
  show "\<exists>new. mm_regions (grub_claim_heap P cm mmap m) = mm_regions m @ new \<and>
      sum_list (map (\<lambda>(a, l). unat l) new)
        \<le> unat (min (grub_machine_mmap_iterate heap_size mmap 0 div 4) (HEAP_MAX_SIZE (cpu P)))"
  proof (cases "FLAG_FORCE_CLAIM P")
    case True
    then have "mm_regions (grub_claim_heap P cm mmap m) = mm_regions m @ []"
      using heap_init_no_budget [of P cm "STATIC_HEAP_START P" "STATIC_HEAP_LEN P" 1 m]
      by (cases "heap_init P cm (STATIC_HEAP_START P) (STATIC_HEAP_LEN P) 1 (0, m)")
        (simp add: grub_claim_heap_def)
    then show ?thesis by (intro exI [of _ "[]"]) simp
  next
    case False
    define budget where
      "budget = min (grub_machine_mmap_iterate heap_size mmap 0 div 4) (HEAP_MAX_SIZE (cpu P))"
    obtain v d' mf where
      t: "mmap_iterate_trace (heap_init P cm) mmap (budget, m) = (v, d', mf)"
      by (cases "mmap_iterate_trace (heap_init P cm) mmap (budget, m)") auto
    have "grub_claim_heap P cm mmap m = mf"
      using False t
      by (auto simp: grub_claim_heap_def Let_def budget_def min_def
          grub_machine_mmap_iterate_def not_less split: if_splits)
    moreover from claim_pass_budget [OF t] obtain new where
      "mm_regions mf = mm_regions m @ new"
      "sum_list (map (\<lambda>(a, l). unat l) new) + unat d' = unat budget" by blast
    ultimately show ?thesis unfolding budget_def [symmetric] by (intro exI [of _ new]) simp
  qed
next
  show "data \<noteq> 0 \<and> heap_init P cm addr len type (data, m0) = (r, 0, m') \<longrightarrow>
      r = 1 \<and>
      mmap_iterate_trace (heap_init P cm) ((addr, len, type) # rest) (data, m0) =
        ([(addr, len, type)], (0, m'))"
  proof
    assume a: "data \<noteq> 0 \<and> heap_init P cm addr len type (data, m0) = (r, 0, m')"
    then have h: "heap_init P cm addr len type (data, m0) = (r, 0, m')" and nz: "data \<noteq> 0"
      by simp_all
    have "r = 1"
      by (cases P cm addr len type data m0 rule: heap_init_cases)
        (use h nz in \<open>auto split: if_splits\<close>)
    then show "r = 1 \<and>
      mmap_iterate_trace (heap_init P cm) ((addr, len, type) # rest) (data, m0) =
        ([(addr, len, type)], (0, m'))"
      using h by simp
  qed
qed

theorem claimed_total_within_budget_witness:
  "(\<exists>new. mm_regions (grub_claim_heap ex_platform claim_ok ex_mmap machine0) =
        mm_regions machine0 @ new \<and>
      sum_list (map (\<lambda>(a, l). unat l) new)
        \<le> unat (min (grub_machine_mmap_iterate heap_size ex_mmap 0 div 4)
                   (HEAP_MAX_SIZE (cpu ex_platform)))) \<and>
   (0x1000 :: grub_uint32_t) \<noteq> 0 \<and>
   heap_init ex_platform claim_ok 0x40000000 0x2000 GRUB_MEMORY_AVAILABLE (0x1000, machine0) =
     (1, 0, machine0\<lparr>claimmap_calls := [(0x40000000, 0x1000)],
                     mm_regions := [(0x40000000, 0x1000)]\<rparr>) \<and>
   mmap_iterate_trace (heap_init ex_platform claim_ok)
     ((0x40000000, 0x2000, GRUB_MEMORY_AVAILABLE) # [(0x50000000, 0x2000, GRUB_MEMORY_AVAILABLE)])
     (0x1000, machine0) =
     ([(0x40000000, 0x2000, GRUB_MEMORY_AVAILABLE)],
      (0, machine0\<lparr>claimmap_calls := [(0x40000000, 0x1000)],
                     mm_regions := [(0x40000000, 0x1000)]\<rparr>))"
proof -
  have h: "heap_init ex_platform claim_ok 0x40000000 0x2000 GRUB_MEMORY_AVAILABLE
             (0x1000, machine0) =
           (1, 0, machine0\<lparr>claimmap_calls := [(0x40000000, 0x1000)],
                           mm_regions := [(0x40000000, 0x1000)]\<rparr>)"
    by code_simp
  have nz: "(0x1000 :: grub_uint32_t) \<noteq> 0" by simp
  show ?thesis
    using claimed_total_within_budget [of ex_platform claim_ok ex_mmap machine0 "0x1000"
        "0x40000000" "0x2000" GRUB_MEMORY_AVAILABLE machine0 1
        "machine0\<lparr>claimmap_calls := [(0x40000000, 0x1000)],
                    mm_regions := [(0x40000000, 0x1000)]\<rparr>"
        "[(0x50000000, 0x2000, GRUB_MEMORY_AVAILABLE)]"] h nz
    by blast
qed

subsection \<open>The guard against claiming over the image\<close>

text \<open>
  The guard's test \<open>addr + len > _start\<close> is computed in 64 bits. Where the sum does
  not overflow it is the comparison of numbers.
\<close>

lemma heap_init_guards_warn:
  "heap_init_guards P data a l = (a', l', w) \<Longrightarrow>
     w = (a < kernel_end P \<and> kernel_start P < a + l)"
  by (auto simp: heap_init_guards_def Let_def split: if_splits prod.splits)

lemma guard_test_nat:
  assumes "unat a + unat l < 2 ^ 64"
  shows "((k :: grub_uint64_t) < a + l) = (unat k < unat a + unat (l :: grub_uint64_t))"
proof -
  have "unat (a + l) = unat a + unat l"
    using assms by (simp add: unat_add_lem [THEN iffD1])
  then show ?thesis by (simp add: word_less_nat_alt)
qed

lemma heap_init_guards_no_image:
  assumes "\<not> (a < kernel_end P \<and> kernel_start P < a + l)"
  shows "heap_init_guards P data a l =
           heap_init_guards (P\<lparr>kernel_start := 0, kernel_end := 0\<rparr>) data a l"
    and "snd (snd (heap_init_guards P data a l)) = False"
  using assms by (auto simp: heap_init_guards_def Let_def split: if_splits prod.splits)

lemma heap_init_trim_no_image:
  "heap_init_trim (P\<lparr>kernel_start := s, kernel_end := e\<rparr>) addr len = heap_init_trim P addr len"
  by (simp add: heap_init_trim_def)

lemma heap_init_no_warning:
  assumes "heap_init_trim P addr len = Some (a, l)"
      and "\<not> (a < kernel_end P \<and> kernel_start P < a + l)"
  shows "heap_init P cm addr len type st =
           heap_init (P\<lparr>kernel_start := 0, kernel_end := 0\<rparr>) cm addr len type st"
    and "console (snd (snd (heap_init P cm addr len type (data, m)))) = console m"
proof -
  show "heap_init P cm addr len type st =
      heap_init (P\<lparr>kernel_start := 0, kernel_end := 0\<rparr>) cm addr len type st"
    by (cases st)
      (simp add: heap_init_def heap_init_trim_no_image assms(1)
        heap_init_guards_no_image(1) [OF assms(2)])
  show "console (snd (snd (heap_init P cm addr len type (data, m)))) = console m"
  proof (cases P cm addr len type data m rule: heap_init_cases)
    case (nothing_left a0 l0 a' w)
    then show ?thesis using assms heap_init_guards_warn [OF nothing_left(3)] by simp
  next
    case (refused a0 l0 a' l' w err fw)
    then show ?thesis using assms heap_init_guards_warn [OF refused(3)] by simp
  next
    case (claimed a0 l0 a' l' w fw)
    then show ?thesis using assms heap_init_guards_warn [OF claimed(3)] by simp
  qed simp_all
qed

lemma heap_init_trim_plain:
  assumes "\<not> FLAG_NO_PRE1_5M_CLAIM P \<or> 0x180000 \<le> addr"
      and "1 \<le> unat len" and "unat addr + unat len \<le> 0xffffffff"
  shows "heap_init_trim P addr len = Some (addr, len - 1)"
    and "unat addr + unat (len - 1) = unat addr + unat len - 1"
proof -
  have s: "unat (addr + len) = unat addr + unat len"
    using assms(3) by (simp add: unat_add_lem [THEN iffD1])
  have 1: "\<not> 0xffffffff < addr" using assms(3) by (simp add: word_less_nat_alt)
  have 2: "\<not> 0xffffffff < addr + len" using assms(3) s by (simp add: word_less_nat_alt)
  have 3: "0x180000 \<le> addr \<Longrightarrow> \<not> addr + len \<le> 0x180000"
    using assms(2) s by (simp add: word_le_nat_alt)
  have 4: "0x180000 \<le> addr \<Longrightarrow> \<not> addr < 0x180000" by simp
  show "heap_init_trim P addr len = Some (addr, len - 1)"
    using assms(1) 1 2 3 4 by (auto simp: heap_init_trim_def)
  have "len \<noteq> 0" using assms(2) by (auto simp: unat_0_iff [symmetric])
  then show "unat addr + unat (len - 1) = unat addr + unat len - 1"
    using assms(2) by (simp add: unat_minus_one)
qed

lemma heap_init_trim_low:
  assumes "FLAG_NO_PRE1_5M_CLAIM P" and "addr < 0x180000"
      and "0x180000 < unat addr + unat len" and "unat addr + unat len \<le> 0xffffffff"
  shows "heap_init_trim P addr len = Some (0x180000, addr + len - 0x180000 - 1)"
    and "unat (addr + len - 0x180000 - 1) = unat addr + unat len - 0x180000 - 1"
proof -
  have s: "unat (addr + len) = unat addr + unat len"
    using assms(4) by (simp add: unat_add_lem [THEN iffD1])
  have 1: "\<not> 0xffffffff < addr" using assms(4) by (simp add: word_less_nat_alt)
  have 2: "\<not> 0xffffffff < addr + len" using assms(4) s by (simp add: word_less_nat_alt)
  have 3: "\<not> addr + len \<le> 0x180000" using assms(3) s by (simp add: word_le_nat_alt)
  show "heap_init_trim P addr len = Some (0x180000, addr + len - 0x180000 - 1)"
    using assms(1,2) 1 2 3 by (simp add: heap_init_trim_def)
  have le: "(0x180000 :: grub_uint64_t) \<le> addr + len" using 3 by simp
  have u: "unat (addr + len - 0x180000) = unat addr + unat len - 0x180000"
    using unat_sub [OF le] s by simp
  then have nz: "addr + len - 0x180000 \<noteq> 0"
    using assms(3) by (auto simp: unat_0_iff [symmetric])
  from unat_minus_one [OF nz] u
  show "unat (addr + len - 0x180000 - 1) = unat addr + unat len - 0x180000 - 1"
    by simp
qed

text \<open>
  C5, as amended. The guard of \<open>heap_init\<close> tests the range that is left after the
  4 GiB clip, the \<open>NO_PRE1_5M_CLAIM\<close> trim and \<open>len -= 1\<close>, not the extent as the
  firmware reported it. Let \<open>(a, l)\<close> be that range, and let \<open>a + l\<close> as a number be
  below \<open>2 ^ 64\<close>. (A range that was empty before \<open>len -= 1\<close> has
  \<open>l = 2 ^ 64 - 1\<close>; unless \<open>a = 0\<close> it is not covered here, see C2.) Then:
  \<^item> if \<open>a < _end\<close> and \<open>a + l > _start\<close>, an Available extent is dropped in full:
    \<open>heap_init\<close> prints the warning and does nothing else, no call to
    \<open>grub_claimmap\<close>, no region, the firmware and the budget unchanged; it returns 0,
    or 1 if the budget was already 0. The 768 MB rule that follows cannot bring any of
    the extent back.
  \<^item> if \<open>a \<ge> _end\<close> or \<open>a + l \<le> _start\<close>, the guard does nothing: no warning is
    printed and \<open>heap_init\<close> does what it does on a platform without an image
    (\<open>_start = _end = 0\<close>).
  \<^item> without the flag, or with \<open>base \<ge> 0x180000\<close>, an extent of length at least 1
    that ends at or below \<open>0xffffffff\<close> leaves the range \<open>(base, length - 1)\<close>. So an
    extent whose last byte is its only byte inside the image is not dropped.
  \<^item> with the flag, an extent with \<open>base < 0x180000 < base + length \<le> 0xffffffff\<close>
    leaves the range \<open>(0x180000, base + length - 0x180000 - 1)\<close>. So an extent that
    meets the image only below \<open>0x180000\<close> is not dropped.
\<close>

theorem own_code_overlap_dropped:
  "(heap_init_trim P addr len = Some (a, l) \<and> unat a + unat l < 2 ^ 64 \<and>
    a < kernel_end P \<and> unat (kernel_start P) < unat a + unat l \<longrightarrow>
      heap_init P cm addr len GRUB_MEMORY_AVAILABLE (data, m) =
        (if data = 0 then 1 else 0, data, m\<lparr>console := console m @ [own_code_warning]\<rparr>)) \<and>
   (heap_init_trim P addr len = Some (a, l) \<and> unat a + unat l < 2 ^ 64 \<and>
    (kernel_end P \<le> a \<or> unat a + unat l \<le> unat (kernel_start P)) \<longrightarrow>
      heap_init P cm addr len type st =
        heap_init (P\<lparr>kernel_start := 0, kernel_end := 0\<rparr>) cm addr len type st \<and>
      console (snd (snd (heap_init P cm addr len type (data, m)))) = console m) \<and>
   ((\<not> FLAG_NO_PRE1_5M_CLAIM P \<or> 0x180000 \<le> addr) \<and> 1 \<le> unat len \<and>
    unat addr + unat len \<le> 0xffffffff \<longrightarrow>
      heap_init_trim P addr len = Some (addr, len - 1) \<and>
      unat addr + unat (len - 1) = unat addr + unat len - 1) \<and>
   (FLAG_NO_PRE1_5M_CLAIM P \<and> addr < 0x180000 \<and> 0x180000 < unat addr + unat len \<and>
    unat addr + unat len \<le> 0xffffffff \<longrightarrow>
      heap_init_trim P addr len = Some (0x180000, addr + len - 0x180000 - 1) \<and>
      unat (addr + len - 0x180000 - 1) = unat addr + unat len - 0x180000 - 1)"
proof (intro conjI impI)
  assume h: "heap_init_trim P addr len = Some (a, l) \<and> unat a + unat l < 2 ^ 64 \<and>
    a < kernel_end P \<and> unat (kernel_start P) < unat a + unat l"
  then have "a < kernel_end P" and "kernel_start P < a + l"
    using guard_test_nat [of a l "kernel_start P"] by simp_all
  then have "heap_init_guards P data a l = (a, 0, True)"
    by (auto simp: heap_init_guards_def Let_def split: if_splits prod.splits)
  from heap_init_nothing_left [OF _ this, of addr len cm m] h
  show "heap_init P cm addr len GRUB_MEMORY_AVAILABLE (data, m) =
      (if data = 0 then 1 else 0, data, m\<lparr>console := console m @ [own_code_warning]\<rparr>)"
    by simp
next
  assume h: "heap_init_trim P addr len = Some (a, l) \<and> unat a + unat l < 2 ^ 64 \<and>
    (kernel_end P \<le> a \<or> unat a + unat l \<le> unat (kernel_start P))"
  then have t: "heap_init_trim P addr len = Some (a, l)" by simp
  have n: "\<not> (a < kernel_end P \<and> kernel_start P < a + l)"
    using h guard_test_nat [of a l "kernel_start P"] by auto
  show "heap_init P cm addr len type st =
      heap_init (P\<lparr>kernel_start := 0, kernel_end := 0\<rparr>) cm addr len type st"
    using t n by (rule heap_init_no_warning(1))
  show "console (snd (snd (heap_init P cm addr len type (data, m)))) = console m"
    using t n by (rule heap_init_no_warning(2))
next
  assume h: "(\<not> FLAG_NO_PRE1_5M_CLAIM P \<or> 0x180000 \<le> addr) \<and> 1 \<le> unat len \<and>
    unat addr + unat len \<le> 0xffffffff"
  then show "heap_init_trim P addr len = Some (addr, len - 1)"
    using heap_init_trim_plain(1) [of P addr len] by blast
  from h show "unat addr + unat (len - 1) = unat addr + unat len - 1"
    using heap_init_trim_plain(2) [of P addr len] by blast
next
  assume h: "FLAG_NO_PRE1_5M_CLAIM P \<and> addr < 0x180000 \<and> 0x180000 < unat addr + unat len \<and>
    unat addr + unat len \<le> 0xffffffff"
  then show "heap_init_trim P addr len = Some (0x180000, addr + len - 0x180000 - 1)"
    using heap_init_trim_low(1) [of P addr len] by blast
  from h show "unat (addr + len - 0x180000 - 1) = unat addr + unat len - 0x180000 - 1"
    using heap_init_trim_low(2) [of P addr len] by blast
qed

theorem own_code_overlap_dropped_witness:
  "(heap_init_trim ex_platform 0x210000 0x10000 = Some (0x210000, 0xffff) \<and>
    unat (0x210000 :: grub_uint64_t) + unat (0xffff :: grub_uint64_t) < 2 ^ 64 \<and>
    0x210000 < kernel_end ex_platform \<and>
    unat (kernel_start ex_platform) < unat (0x210000 :: grub_uint64_t) + unat (0xffff :: grub_uint64_t) \<and>
    heap_init ex_platform claim_ok 0x210000 0x10000 GRUB_MEMORY_AVAILABLE (0x1000, machine0) =
      (0, 0x1000, machine0\<lparr>console := [own_code_warning]\<rparr>)) \<and>
   (heap_init_trim ex_platform 0x100000 0x110000 = Some (0x100000, 0x10ffff) \<and>
    unat (0x100000 :: grub_uint64_t) + unat (0x10ffff :: grub_uint64_t) < 2 ^ 64 \<and>
    0x100000 < kernel_end ex_platform \<and>
    unat (kernel_start ex_platform) < unat (0x100000 :: grub_uint64_t) + unat (0x10ffff :: grub_uint64_t) \<and>
    heap_init ex_platform claim_ok 0x100000 0x110000 GRUB_MEMORY_AVAILABLE (0x1000, machine0) =
      (0, 0x1000, machine0\<lparr>console := [own_code_warning]\<rparr>)) \<and>
   (heap_init_trim ex_platform 0x2f0000 0x110000 = Some (0x2f0000, 0x10ffff) \<and>
    unat (0x2f0000 :: grub_uint64_t) + unat (0x10ffff :: grub_uint64_t) < 2 ^ 64 \<and>
    0x2f0000 < kernel_end ex_platform \<and>
    unat (kernel_start ex_platform) < unat (0x2f0000 :: grub_uint64_t) + unat (0x10ffff :: grub_uint64_t) \<and>
    heap_init ex_platform claim_ok 0x2f0000 0x110000 GRUB_MEMORY_AVAILABLE (0x1000, machine0) =
      (0, 0x1000, machine0\<lparr>console := [own_code_warning]\<rparr>)) \<and>
   (heap_init_trim ex_no_pre1_5m 0x100000 0x300000 = Some (0x180000, 0x27ffff) \<and>
    unat (0x180000 :: grub_uint64_t) + unat (0x27ffff :: grub_uint64_t) < 2 ^ 64 \<and>
    0x180000 < kernel_end ex_no_pre1_5m \<and>
    unat (kernel_start ex_no_pre1_5m) < unat (0x180000 :: grub_uint64_t) + unat (0x27ffff :: grub_uint64_t) \<and>
    heap_init ex_no_pre1_5m claim_ok 0x100000 0x300000 GRUB_MEMORY_AVAILABLE (0x1000, machine0) =
      (0, 0x1000, machine0\<lparr>console := [own_code_warning]\<rparr>)) \<and>
   (heap_init_trim ex_platform 0x100000 0x100001 = Some (0x100000, 0x100000) \<and>
    unat (0x100000 :: grub_uint64_t) + unat (0x100000 :: grub_uint64_t) < 2 ^ 64 \<and>
    unat (0x100000 :: grub_uint64_t) + unat (0x100000 :: grub_uint64_t) \<le> unat (kernel_start ex_platform) \<and>
    heap_init ex_platform claim_ok 0x100000 0x100001 GRUB_MEMORY_AVAILABLE (0x1000, machine0) =
      heap_init (ex_platform\<lparr>kernel_start := 0, kernel_end := 0\<rparr>) claim_ok 0x100000 0x100001
        GRUB_MEMORY_AVAILABLE (0x1000, machine0) \<and>
    console (snd (snd (heap_init ex_platform claim_ok 0x100000 0x100001 GRUB_MEMORY_AVAILABLE
      (0x1000, machine0)))) = console machine0) \<and>
   (heap_init_trim ex_low_image 0x100000 0x300000 = Some (0x180000, 0x27ffff) \<and>
    kernel_end ex_low_image \<le> 0x180000 \<and>
    heap_init ex_low_image claim_ok 0x100000 0x300000 GRUB_MEMORY_AVAILABLE (0x1000, machine0) =
      heap_init (ex_low_image\<lparr>kernel_start := 0, kernel_end := 0\<rparr>) claim_ok 0x100000 0x300000
        GRUB_MEMORY_AVAILABLE (0x1000, machine0) \<and>
    console (snd (snd (heap_init ex_low_image claim_ok 0x100000 0x300000 GRUB_MEMORY_AVAILABLE
      (0x1000, machine0)))) = console machine0) \<and>
   (\<not> FLAG_NO_PRE1_5M_CLAIM ex_platform \<and> 1 \<le> unat (0x100001 :: grub_uint64_t) \<and>
    unat (0x100000 :: grub_uint64_t) + unat (0x100001 :: grub_uint64_t) \<le> 0xffffffff \<and>
    heap_init_trim ex_platform 0x100000 0x100001 = Some (0x100000, 0x100001 - 1)) \<and>
   (FLAG_NO_PRE1_5M_CLAIM ex_low_image \<and> (0x100000 :: grub_uint64_t) < 0x180000 \<and>
    0x180000 < unat (0x100000 :: grub_uint64_t) + unat (0x300000 :: grub_uint64_t) \<and>
    unat (0x100000 :: grub_uint64_t) + unat (0x300000 :: grub_uint64_t) \<le> 0xffffffff \<and>
    heap_init_trim ex_low_image 0x100000 0x300000 = Some (0x180000, 0x100000 + 0x300000 - 0x180000 - 1))"
proof -
  have k: "kernel_start ex_platform = 0x200000" "kernel_end ex_platform = 0x300000"
    "kernel_start ex_no_pre1_5m = 0x200000" "kernel_end ex_no_pre1_5m = 0x300000"
    "kernel_start ex_low_image = 0x100000" "kernel_end ex_low_image = 0x170000"
    "\<not> FLAG_NO_PRE1_5M_CLAIM ex_platform" "FLAG_NO_PRE1_5M_CLAIM ex_low_image"
    by (simp_all add: ex_platform_def ex_no_pre1_5m_def ex_low_image_def)
  have c: "console machine0 = []" by (simp add: machine0_def)
  have t1: "heap_init_trim ex_platform 0x210000 0x10000 = Some (0x210000, 0xffff)"
    and t2: "heap_init_trim ex_platform 0x100000 0x110000 = Some (0x100000, 0x10ffff)"
    and t3: "heap_init_trim ex_platform 0x2f0000 0x110000 = Some (0x2f0000, 0x10ffff)"
    and t4: "heap_init_trim ex_no_pre1_5m 0x100000 0x300000 = Some (0x180000, 0x27ffff)"
    and t5: "heap_init_trim ex_platform 0x100000 0x100001 = Some (0x100000, 0x100000)"
    and t6: "heap_init_trim ex_low_image 0x100000 0x300000 = Some (0x180000, 0x27ffff)"
    by code_simp+
  have n: "unat (0x210000 :: grub_uint64_t) + unat (0xffff :: grub_uint64_t) < 2 ^ 64"
    "0x210000 < kernel_end ex_platform"
    "unat (kernel_start ex_platform) < unat (0x210000 :: grub_uint64_t) + unat (0xffff :: grub_uint64_t)"
    "unat (0x100000 :: grub_uint64_t) + unat (0x10ffff :: grub_uint64_t) < 2 ^ 64"
    "0x100000 < kernel_end ex_platform"
    "unat (kernel_start ex_platform) < unat (0x100000 :: grub_uint64_t) + unat (0x10ffff :: grub_uint64_t)"
    "unat (0x2f0000 :: grub_uint64_t) + unat (0x10ffff :: grub_uint64_t) < 2 ^ 64"
    "0x2f0000 < kernel_end ex_platform"
    "unat (kernel_start ex_platform) < unat (0x2f0000 :: grub_uint64_t) + unat (0x10ffff :: grub_uint64_t)"
    "unat (0x180000 :: grub_uint64_t) + unat (0x27ffff :: grub_uint64_t) < 2 ^ 64"
    "0x180000 < kernel_end ex_no_pre1_5m"
    "unat (kernel_start ex_no_pre1_5m) < unat (0x180000 :: grub_uint64_t) + unat (0x27ffff :: grub_uint64_t)"
    "unat (0x100000 :: grub_uint64_t) + unat (0x100000 :: grub_uint64_t) < 2 ^ 64"
    "unat (0x100000 :: grub_uint64_t) + unat (0x100000 :: grub_uint64_t) \<le> unat (kernel_start ex_platform)"
    "kernel_end ex_low_image \<le> 0x180000"
    "1 \<le> unat (0x100001 :: grub_uint64_t)"
    "unat (0x100000 :: grub_uint64_t) + unat (0x100001 :: grub_uint64_t) \<le> 0xffffffff"
    "(0x100000 :: grub_uint64_t) < 0x180000"
    "0x180000 < unat (0x100000 :: grub_uint64_t) + unat (0x300000 :: grub_uint64_t)"
    "unat (0x100000 :: grub_uint64_t) + unat (0x300000 :: grub_uint64_t) \<le> 0xffffffff"
    by (simp_all add: k)
  have a1: "heap_init ex_platform claim_ok 0x210000 0x10000 GRUB_MEMORY_AVAILABLE
      (0x1000, machine0) = (0, 0x1000, machine0\<lparr>console := [own_code_warning]\<rparr>)"
  proof -
    have "heap_init ex_platform claim_ok 0x210000 0x10000 GRUB_MEMORY_AVAILABLE (0x1000, machine0) =
        (if (0x1000 :: grub_uint32_t) = 0 then 1 else 0, 0x1000,
         machine0\<lparr>console := console machine0 @ [own_code_warning]\<rparr>)"
      using own_code_overlap_dropped [where P = ex_platform and addr = "0x210000"
          and len = "0x10000" and a = "0x210000" and l = "0xffff" and cm = claim_ok
          and data = "0x1000" and m = machine0] t1 n
      by blast
    then show ?thesis by (simp add: c)
  qed
  have a2: "heap_init ex_platform claim_ok 0x100000 0x110000 GRUB_MEMORY_AVAILABLE
      (0x1000, machine0) = (0, 0x1000, machine0\<lparr>console := [own_code_warning]\<rparr>)"
  proof -
    have "heap_init ex_platform claim_ok 0x100000 0x110000 GRUB_MEMORY_AVAILABLE (0x1000, machine0) =
        (if (0x1000 :: grub_uint32_t) = 0 then 1 else 0, 0x1000,
         machine0\<lparr>console := console machine0 @ [own_code_warning]\<rparr>)"
      using own_code_overlap_dropped [where P = ex_platform and addr = "0x100000"
          and len = "0x110000" and a = "0x100000" and l = "0x10ffff" and cm = claim_ok
          and data = "0x1000" and m = machine0] t2 n
      by blast
    then show ?thesis by (simp add: c)
  qed
  have a3: "heap_init ex_platform claim_ok 0x2f0000 0x110000 GRUB_MEMORY_AVAILABLE
      (0x1000, machine0) = (0, 0x1000, machine0\<lparr>console := [own_code_warning]\<rparr>)"
  proof -
    have "heap_init ex_platform claim_ok 0x2f0000 0x110000 GRUB_MEMORY_AVAILABLE (0x1000, machine0) =
        (if (0x1000 :: grub_uint32_t) = 0 then 1 else 0, 0x1000,
         machine0\<lparr>console := console machine0 @ [own_code_warning]\<rparr>)"
      using own_code_overlap_dropped [where P = ex_platform and addr = "0x2f0000"
          and len = "0x110000" and a = "0x2f0000" and l = "0x10ffff" and cm = claim_ok
          and data = "0x1000" and m = machine0] t3 n
      by blast
    then show ?thesis by (simp add: c)
  qed
  have a4: "heap_init ex_no_pre1_5m claim_ok 0x100000 0x300000 GRUB_MEMORY_AVAILABLE
      (0x1000, machine0) = (0, 0x1000, machine0\<lparr>console := [own_code_warning]\<rparr>)"
  proof -
    have "heap_init ex_no_pre1_5m claim_ok 0x100000 0x300000 GRUB_MEMORY_AVAILABLE (0x1000, machine0) =
        (if (0x1000 :: grub_uint32_t) = 0 then 1 else 0, 0x1000,
         machine0\<lparr>console := console machine0 @ [own_code_warning]\<rparr>)"
      using own_code_overlap_dropped [where P = ex_no_pre1_5m and addr = "0x100000"
          and len = "0x300000" and a = "0x180000" and l = "0x27ffff" and cm = claim_ok
          and data = "0x1000" and m = machine0] t4 n
      by blast
    then show ?thesis by (simp add: c)
  qed
  have b1: "heap_init ex_platform claim_ok 0x100000 0x100001 GRUB_MEMORY_AVAILABLE
        (0x1000, machine0) =
      heap_init (ex_platform\<lparr>kernel_start := 0, kernel_end := 0\<rparr>) claim_ok 0x100000 0x100001
        GRUB_MEMORY_AVAILABLE (0x1000, machine0) \<and>
      console (snd (snd (heap_init ex_platform claim_ok 0x100000 0x100001 GRUB_MEMORY_AVAILABLE
        (0x1000, machine0)))) = console machine0"
    using own_code_overlap_dropped [where P = ex_platform and addr = "0x100000"
        and len = "0x100001" and a = "0x100000" and l = "0x100000" and cm = claim_ok
        and type = GRUB_MEMORY_AVAILABLE and st = "(0x1000, machine0)"
        and data = "0x1000" and m = machine0] t5 n c
    by blast
  have b2: "heap_init ex_low_image claim_ok 0x100000 0x300000 GRUB_MEMORY_AVAILABLE
        (0x1000, machine0) =
      heap_init (ex_low_image\<lparr>kernel_start := 0, kernel_end := 0\<rparr>) claim_ok 0x100000 0x300000
        GRUB_MEMORY_AVAILABLE (0x1000, machine0) \<and>
      console (snd (snd (heap_init ex_low_image claim_ok 0x100000 0x300000 GRUB_MEMORY_AVAILABLE
        (0x1000, machine0)))) = console machine0"
    using own_code_overlap_dropped [where P = ex_low_image and addr = "0x100000"
        and len = "0x300000" and a = "0x180000" and l = "0x27ffff" and cm = claim_ok
        and type = GRUB_MEMORY_AVAILABLE and st = "(0x1000, machine0)"
        and data = "0x1000" and m = machine0] t6 n c
    by blast
  have c1: "heap_init_trim ex_platform 0x100000 0x100001 = Some (0x100000, 0x100001 - 1)"
    using own_code_overlap_dropped [where P = ex_platform and addr = "0x100000"
        and len = "0x100001"] n k(7)
    by blast
  have d1: "heap_init_trim ex_low_image 0x100000 0x300000 =
      Some (0x180000, 0x100000 + 0x300000 - 0x180000 - 1)"
    using own_code_overlap_dropped [where P = ex_low_image and addr = "0x100000"
        and len = "0x300000"] n k(8)
    by blast
  show ?thesis
    using a1 a2 a3 a4 b1 b2 c1 d1 t1 t2 t3 t4 t5 t6 n k(7,8) by blast
qed

text \<open>
  C5, the counterexamples to "every extent that intersects the image range is dropped".
  On \<open>ex_platform\<close> the image is \<open>[0x200000, 0x300000)\<close>. The extent
  \<open>(0x100000, 0x100001)\<close> covers \<open>[0x100000, 0x200001)\<close> and so contains the first
  byte of the image. After \<open>len -= 1\<close> the guard sees
  \<open>0x100000 + 0x100000 > 0x200000\<close>, which is false: no warning is printed and
  \<open>(0x100000, 0x100000)\<close> is claimed and registered. On \<open>ex_low_image\<close> the flag
  \<open>NO_PRE1_5M_CLAIM\<close> is set and the image is \<open>[0x100000, 0x170000)\<close>. The extent
  \<open>(0x100000, 0x300000)\<close> contains the whole image; it is trimmed to start at
  \<open>0x180000\<close>, the guard sees \<open>0x180000 < 0x170000\<close>, which is false, and
  \<open>(0x180000, 0x27ffff)\<close> is claimed and registered without a warning.
\<close>

theorem one_byte_overlap_is_claimed:
  "((0x100000 :: grub_uint64_t) < kernel_end ex_platform \<and>
    kernel_start ex_platform < (0x100000 :: grub_uint64_t) + 0x100001 \<and>
    heap_init ex_platform claim_ok 0x100000 0x100001 GRUB_MEMORY_AVAILABLE
      (0x40000000, machine0) =
      (0, 0x3ff00000, machine0\<lparr>claimmap_calls := [(0x100000, 0x100000)],
                               mm_regions := [(0x100000, 0x100000)]\<rparr>)) \<and>
   (FLAG_NO_PRE1_5M_CLAIM ex_low_image \<and>
    (0x100000 :: grub_uint64_t) < kernel_end ex_low_image \<and>
    kernel_start ex_low_image < (0x100000 :: grub_uint64_t) + 0x300000 \<and>
    heap_init ex_low_image claim_ok 0x100000 0x300000 GRUB_MEMORY_AVAILABLE
      (0x40000000, machine0) =
      (0, 0x3fd80001, machine0\<lparr>claimmap_calls := [(0x180000, 0x27ffff)],
                               mm_regions := [(0x180000, 0x27ffff)]\<rparr>))"
  by code_simp

subsection \<open>The clip below 4 GiB\<close>






section \<open>Properties of the boot location resolver\<close>

subsection \<open>The loop that strips the canonical name\<close>

lemma strip_loop_le: "bootlocation_strip_loop canon ptr \<le> ptr"
proof (induction canon ptr rule: bootlocation_strip_loop.induct)
  case (1 canon ptr)
  then show ?case by (subst bootlocation_strip_loop.simps) auto
qed

lemma strip_loop_prefix:
  "ptr < int (length ys) \<Longrightarrow>
     bootlocation_strip_loop (ys @ zs) ptr = bootlocation_strip_loop ys ptr"
proof (induction ys ptr rule: bootlocation_strip_loop.induct)
  case (1 canon ptr)
  show ?case
  proof (cases "ptr > 0 \<and> (canon ! nat ptr = CHR '','' \<or> canon ! nat ptr = CHR '':'')")
    case True
    then have "bootlocation_strip_loop (canon @ zs) (ptr - 1) = bootlocation_strip_loop canon (ptr - 1)"
      using 1 by simp
    moreover have "nat ptr < length canon" using 1(2) True by linarith
    then have "(canon @ zs) ! nat ptr = canon ! nat ptr" by (simp add: nth_append)
    ultimately show ?thesis
      using True
      by (subst bootlocation_strip_loop.simps, subst (2) bootlocation_strip_loop.simps) simp
  next
    case False
    moreover have "ptr > 0 \<Longrightarrow> (canon @ zs) ! nat ptr = canon ! nat ptr"
    proof -
      assume "ptr > 0"
      then have "nat ptr < length canon" using 1(2) by linarith
      then show ?thesis by (simp add: nth_append)
    qed
    ultimately show ?thesis
      by (subst bootlocation_strip_loop.simps, subst (2) bootlocation_strip_loop.simps) auto
  qed
qed

lemma bootlocation_strip_Nil: "bootlocation_strip [] = []"
  by (simp add: bootlocation_strip_def)

lemma bootlocation_strip_Cons: "bootlocation_strip (c # cs) = c # strip_all_trailing cs"
proof (induction cs rule: rev_induct)
  case Nil
  have "bootlocation_strip_loop [c] 0 = 0" by (subst bootlocation_strip_loop.simps) simp
  then show ?case by (simp add: bootlocation_strip_def strip_all_trailing_def)
next
  case (snoc x xs)
  let ?canon = "c # xs @ [x]"
  have nth: "?canon ! nat (int (length xs) + 1) = x"
    by (simp add: nat_add_distrib nth_append)
  show ?case
  proof (cases "x = CHR '','' \<or> x = CHR '':''")
    case True
    have "bootlocation_strip_loop ?canon (int (length xs) + 1) =
        bootlocation_strip_loop ?canon (int (length xs))"
      using True nth by (subst bootlocation_strip_loop.simps) auto
    also have "\<dots> = bootlocation_strip_loop (c # xs) (int (length xs))"
      using strip_loop_prefix [of "int (length xs)" "c # xs" "[x]"] by simp
    finally have l: "bootlocation_strip_loop ?canon (int (length xs) + 1) =
        bootlocation_strip_loop (c # xs) (int (length xs))" .
    have "nat (bootlocation_strip_loop (c # xs) (int (length xs)) + 1) \<le> length (c # xs)"
      using strip_loop_le [of "c # xs" "int (length xs)"] by simp
    then have "take (nat (bootlocation_strip_loop (c # xs) (int (length xs)) + 1)) ((c # xs) @ [x]) =
        take (nat (bootlocation_strip_loop (c # xs) (int (length xs)) + 1)) (c # xs)"
      by (simp only: take_append) simp
    then have "bootlocation_strip ?canon = bootlocation_strip (c # xs)"
      using l by (simp add: bootlocation_strip_def add.commute)
    then show ?thesis using snoc True by (auto simp: strip_all_trailing_def)
  next
    case False
    have "bootlocation_strip_loop ?canon (int (length xs) + 1) = int (length xs) + 1"
      using False nth by (subst bootlocation_strip_loop.simps) auto
    then show ?thesis
      using False by (simp add: bootlocation_strip_def strip_all_trailing_def add.commute)
  qed
qed

subsection \<open>Network boot\<close>

text \<open>
  C7, as amended. When the boot device exists and its device type is "network",
  \<open>grub_machine_get_bootlocation\<close> writes neither \<open>*device\<close> nor \<open>*path\<close> itself:
  if the canonical name is \<open>NULL\<close> or no callback is registered they are left as they
  were, and otherwise they are what the callback makes of them. The callback is invoked
  with the canonicalised alias device name, stripped of its trailing commas and colons
  except that the first character of the name is never removed (the loop stops at
  \<open>ptr > canon\<close>), and with the boot path.
\<close>

theorem network_boot_delegates:
  assumes "grub_ieee1275_get_boot_dev F = Some bootpath"
      and "grub_ieee1275_get_device_type F bootpath = Some ''network''"
  shows "grub_machine_get_bootlocation F (device, path) =
     (case grub_ieee1275_canonicalise_devname F (grub_ieee1275_get_aliasdevname F bootpath) of
        None \<Rightarrow> (device, path)
      | Some canon \<Rightarrow>
          (case grub_ieee1275_net_config F of
             None \<Rightarrow> (device, path)
           | Some net_config \<Rightarrow>
               net_config (case canon of [] \<Rightarrow> [] | c # cs \<Rightarrow> c # strip_all_trailing cs)
                 (device, path) bootpath))"
proof -
  have "bootlocation_strip canon = (case canon of [] \<Rightarrow> [] | c # cs \<Rightarrow> c # strip_all_trailing cs)"
    for canon
    by (cases canon) (simp_all add: bootlocation_strip_Nil bootlocation_strip_Cons)
  then show ?thesis
    using assms by (simp add: grub_machine_get_bootlocation_def split: option.splits)
qed

theorem network_boot_delegates_witness:
  "grub_ieee1275_get_boot_dev ex_network = Some ''/pci@f2000000/ethernet@f:speed=auto,duplex=auto'' \<and>
   grub_ieee1275_get_device_type ex_network ''/pci@f2000000/ethernet@f:speed=auto,duplex=auto'' =
     Some ''network'' \<and>
   grub_machine_get_bootlocation ex_network (None, None) =
     (Some ''/pci@f2000000/ethernet@f'', Some ''/pci@f2000000/ethernet@f:speed=auto,duplex=auto'')"
proof -
  have b: "grub_ieee1275_get_boot_dev ex_network =
      Some ''/pci@f2000000/ethernet@f:speed=auto,duplex=auto''"
    and t: "grub_ieee1275_get_device_type ex_network
      ''/pci@f2000000/ethernet@f:speed=auto,duplex=auto'' = Some ''network''"
    by (simp_all add: ex_network_def)
  have s: "strip_all_trailing ''pci@f2000000/ethernet@f:,'' = ''pci@f2000000/ethernet@f''"
    by (simp add: strip_all_trailing_def)
  show ?thesis
    using network_boot_delegates [OF b t, of None None] b t s
    by (simp add: ex_network_def)
qed

text \<open>
  C7, the counterexample to "stripped of all trailing commas and colons". For the
  canonical name \<open>:\<close> the name with all trailing separators removed is empty, but the
  callback is invoked with \<open>:\<close> (the example callback stores the name it gets in
  \<open>*device\<close>).
\<close>

theorem first_character_is_kept:
  "grub_ieee1275_get_device_type ex_separators
     ''/pci@f2000000/ethernet@f:speed=auto,duplex=auto'' = Some ''network'' \<and>
   grub_ieee1275_canonicalise_devname ex_separators (Some ''enet'') = Some '':'' \<and>
   strip_all_trailing '':'' = [] \<and>
   grub_machine_get_bootlocation ex_separators (None, None) =
     (Some '':'', Some ''/pci@f2000000/ethernet@f:speed=auto,duplex=auto'')"
  by code_simp

subsection \<open>Disk boot\<close>

text \<open>\<open>grub_translate_ieee1275_path\<close> turns every backslash into a slash.\<close>

lemma grub_strchr_None: "grub_strchr s c = None \<Longrightarrow> c \<notin> set s"
  by (induction s) (auto split: if_splits)

lemma grub_translate_ieee1275_path_map:
  "grub_translate_ieee1275_path filepath =
     map (\<lambda>c. if c = backslash then CHR ''/'' else c) filepath"
proof (induction filepath rule: grub_translate_ieee1275_path.induct)
  case (1 filepath)
  let ?f = "\<lambda>c. if c = backslash then CHR ''/'' else c"
  show ?case
  proof (cases "grub_strchr filepath backslash")
    case None
    then have "backslash \<notin> set filepath" by (rule grub_strchr_None)
    then have "map ?f filepath = filepath" by (induction filepath) auto
    then show ?thesis using None by (subst grub_translate_ieee1275_path.simps) simp
  next
    case (Some i)
    then have i: "i < length filepath" "filepath ! i = backslash"
      using grub_strchr_Some by blast+
    have "grub_translate_ieee1275_path filepath =
        grub_translate_ieee1275_path (filepath[i := CHR ''/''])"
      using Some by (subst grub_translate_ieee1275_path.simps) simp
    also have "\<dots> = map ?f (filepath[i := CHR ''/''])" using 1 Some by simp
    also have "\<dots> = (map ?f filepath)[i := CHR ''/'']"
      by (simp add: map_update backslash_def)
    also have "\<dots> = map ?f filepath"
      using i by (intro list_update_same_conv [THEN iffD2]) simp_all
    finally show ?thesis .
  qed
qed

lemma grub_strrchr_from_absent: "c \<notin> set s \<Longrightarrow> grub_strrchr_from s c i p = p"
  by (induction s arbitrary: i p) auto

lemma grub_strrchr_absent: "c \<notin> set s \<Longrightarrow> grub_strrchr s c = None"
  by (simp add: grub_strrchr_def grub_strrchr_from_absent)

lemma grub_strrchr_from_last:
  "c \<notin> set leaf \<Longrightarrow> grub_strrchr_from (dir @ c # leaf) c i p = Some (i + length dir)"
  by (induction dir arbitrary: i p) (simp_all add: grub_strrchr_from_absent)

lemma grub_strrchr_last:
  "c \<notin> set leaf \<Longrightarrow> grub_strrchr (dir @ c # leaf) c = Some (length dir)"
  by (simp add: grub_strrchr_def grub_strrchr_from_last)

lemma ex_filename_lastslash: "grub_strrchr ex_filename backslash = Some 10"
  by code_simp

lemma ex_filename_translated:
  "grub_translate_ieee1275_path (take 10 ex_filename) = ''/boot/grub''"
  by code_simp

text \<open>
  C8. When the boot device exists and its device type is not "network" (or is \<open>NULL\<close>):
  if the firmware file name is \<open>ex_filename\<close>, backslash \<open>boot\<close> backslash \<open>grub\<close>
  backslash \<open>x\<close>, then \<open>*path\<close> becomes \<open>/boot/grub\<close> and \<open>*device\<close> the encoded
  device name. In general, for a file name \<open>dir\<close> backslash \<open>leaf\<close> whose \<open>leaf\<close>
  holds no backslash, \<open>*path\<close> becomes \<open>dir\<close> with every backslash turned into a
  slash. And whatever \<open>grub_ieee1275_get_filename\<close> returns, a file name or \<open>NULL\<close>,
  \<open>*device\<close> becomes the encoded device name.
\<close>

theorem disk_boot_path:
  assumes "grub_ieee1275_get_boot_dev F = Some bootpath"
      and "grub_ieee1275_get_device_type F bootpath \<noteq> Some ''network''"
  shows "(grub_ieee1275_get_filename F bootpath = Some ex_filename \<longrightarrow>
            grub_machine_get_bootlocation F (device, path) =
              (grub_ieee1275_encode_devname F bootpath, Some ''/boot/grub'')) \<and>
         (grub_ieee1275_get_filename F bootpath = Some (dir @ backslash # leaf) \<and>
          backslash \<notin> set leaf \<longrightarrow>
            snd (grub_machine_get_bootlocation F (device, path)) =
              Some (map (\<lambda>c. if c = backslash then CHR ''/'' else c) dir)) \<and>
         fst (grub_machine_get_bootlocation F (device, path)) =
           grub_ieee1275_encode_devname F bootpath"
proof (intro conjI impI)
  assume "grub_ieee1275_get_filename F bootpath = Some ex_filename"
  then show "grub_machine_get_bootlocation F (device, path) =
      (grub_ieee1275_encode_devname F bootpath, Some ''/boot/grub'')"
    using assms
    by (simp add: grub_machine_get_bootlocation_def Let_def ex_filename_lastslash
        ex_filename_translated)
next
  assume "grub_ieee1275_get_filename F bootpath = Some (dir @ backslash # leaf) \<and>
    backslash \<notin> set leaf"
  then show "snd (grub_machine_get_bootlocation F (device, path)) =
      Some (map (\<lambda>c. if c = backslash then CHR ''/'' else c) dir)"
    using assms
    by (simp add: grub_machine_get_bootlocation_def Let_def grub_strrchr_last
        grub_translate_ieee1275_path_map)
next
  show "fst (grub_machine_get_bootlocation F (device, path)) =
      grub_ieee1275_encode_devname F bootpath"
    using assms by (simp add: grub_machine_get_bootlocation_def Let_def)
qed

theorem disk_boot_path_witness:
  "grub_ieee1275_get_boot_dev ex_disk = Some ''/pci@f4000000/ata-6@d/disk@0:3,'' \<and>
   grub_ieee1275_get_device_type ex_disk ''/pci@f4000000/ata-6@d/disk@0:3,'' \<noteq> Some ''network'' \<and>
   grub_ieee1275_get_filename ex_disk ''/pci@f4000000/ata-6@d/disk@0:3,'' = Some ex_filename \<and>
   ex_filename = ([backslash] @ ''boot'' @ [backslash] @ ''grub'') @ backslash # ''x'' \<and>
   backslash \<notin> set ''x'' \<and>
   grub_machine_get_bootlocation ex_disk (None, None) =
     (Some ''ieee1275/hd,apple3'', Some ''/boot/grub'') \<and>
   snd (grub_machine_get_bootlocation ex_disk (None, None)) =
     Some (map (\<lambda>c. if c = backslash then CHR ''/'' else c)
            ([backslash] @ ''boot'' @ [backslash] @ ''grub''))"
proof -
  have b: "grub_ieee1275_get_boot_dev ex_disk = Some ''/pci@f4000000/ata-6@d/disk@0:3,''"
    and t: "grub_ieee1275_get_device_type ex_disk ''/pci@f4000000/ata-6@d/disk@0:3,'' \<noteq>
      Some ''network''"
    and f: "grub_ieee1275_get_filename ex_disk ''/pci@f4000000/ata-6@d/disk@0:3,'' =
      Some ex_filename"
    and e: "grub_ieee1275_encode_devname ex_disk ''/pci@f4000000/ata-6@d/disk@0:3,'' =
      Some ''ieee1275/hd,apple3''"
    by (simp_all add: ex_disk_def)
  have x: "ex_filename = ([backslash] @ ''boot'' @ [backslash] @ ''grub'') @ backslash # ''x''"
    by (simp add: ex_filename_def)
  have n: "backslash \<notin> set ''x''" by (simp add: backslash_def)
  have f': "grub_ieee1275_get_filename ex_disk ''/pci@f4000000/ata-6@d/disk@0:3,'' =
      Some (([backslash] @ ''boot'' @ [backslash] @ ''grub'') @ backslash # ''x'')"
    using f x by simp
  note w = disk_boot_path [OF b t, where dir = "[backslash] @ ''boot'' @ [backslash] @ ''grub''"
      and leaf = "''x''" and device = None and path = None]
  have r1: "grub_machine_get_bootlocation ex_disk (None, None) =
      (grub_ieee1275_encode_devname ex_disk ''/pci@f4000000/ata-6@d/disk@0:3,'',
       Some ''/boot/grub'')"
    using w f by blast
  have r2: "snd (grub_machine_get_bootlocation ex_disk (None, None)) =
      Some (map (\<lambda>c. if c = backslash then CHR ''/'' else c)
             ([backslash] @ ''boot'' @ [backslash] @ ''grub''))"
    using w f' n by blast
  show ?thesis using b t f x n r1 [unfolded e] r2 by blast
qed

text \<open>
  C10. In the same branch, when the firmware file name is present and holds no backslash,
  \<open>*path\<close> is left as it was and \<open>*device\<close> becomes the encoded device name.
\<close>

theorem filename_without_backslash:
  assumes "grub_ieee1275_get_boot_dev F = Some bootpath"
      and "grub_ieee1275_get_device_type F bootpath \<noteq> Some ''network''"
      and "grub_ieee1275_get_filename F bootpath = Some filename"
      and "backslash \<notin> set filename"
  shows "grub_machine_get_bootlocation F (device, path) =
           (grub_ieee1275_encode_devname F bootpath, path)"
  using assms
  by (simp add: grub_machine_get_bootlocation_def Let_def grub_strrchr_absent)

theorem filename_without_backslash_witness:
  "grub_ieee1275_get_boot_dev ex_disk_flat = Some ''/pci@f4000000/ata-6@d/disk@0:3,'' \<and>
   grub_ieee1275_get_device_type ex_disk_flat ''/pci@f4000000/ata-6@d/disk@0:3,'' \<noteq>
     Some ''network'' \<and>
   grub_ieee1275_get_filename ex_disk_flat ''/pci@f4000000/ata-6@d/disk@0:3,'' = Some ''grub.elf'' \<and>
   backslash \<notin> set ''grub.elf'' \<and>
   grub_machine_get_bootlocation ex_disk_flat (None, None) = (Some ''ieee1275/hd,apple3'', None)"
proof -
  have b: "grub_ieee1275_get_boot_dev ex_disk_flat = Some ''/pci@f4000000/ata-6@d/disk@0:3,''"
    and t: "grub_ieee1275_get_device_type ex_disk_flat ''/pci@f4000000/ata-6@d/disk@0:3,'' \<noteq>
      Some ''network''"
    and f: "grub_ieee1275_get_filename ex_disk_flat ''/pci@f4000000/ata-6@d/disk@0:3,'' =
      Some ''grub.elf''"
    and e: "grub_ieee1275_encode_devname ex_disk_flat ''/pci@f4000000/ata-6@d/disk@0:3,'' =
      Some ''ieee1275/hd,apple3''"
    by (simp_all add: ex_disk_flat_def ex_disk_def)
  have n: "backslash \<notin> set ''grub.elf''" by (simp add: backslash_def)
  show ?thesis
    using filename_without_backslash [OF b t f n, of None None] b t f e n by simp
qed

section \<open>Properties of the \<open>bootargs\<close> importer\<close>

lemma grub_strchr_buf_absent:
  "cstring_buf b = Some tok \<Longrightarrow> c \<notin> set tok \<Longrightarrow> c \<noteq> NUL \<Longrightarrow> grub_strchr_buf b c = Some None"
  by (induction b arbitrary: tok) (auto split: if_splits)

lemma cmdline_command_no_equals:
  assumes "cstring_buf (drop command args) = Some tok" and "CHR ''='' \<notin> set tok"
  shows "cmdline_command args command env = Some (args, env)"
proof -
  have "CHR ''='' \<noteq> NUL" by (simp add: NUL_def)
  then have "grub_strchr_buf (drop command args) (CHR ''='') = Some None"
    using assms by (simp add: grub_strchr_buf_absent)
  then show ?thesis by (simp add: cmdline_command_def)
qed

text \<open>
  C9. The property string \<open>a=1;b=2;  c=3\<close> (14 bytes with its NUL) makes
  \<open>grub_parse_cmdline\<close> call \<open>grub_env_set\<close> exactly three times, for \<open>a=1\<close>,
  \<open>b=2\<close> and \<open>c=3\<close> in this order: the two spaces after the second semicolon are
  skipped. A command whose text, from its start to the NUL that ends it, holds no \<open>=\<close>
  sets nothing and leaves the buffer as it is; so \<open>foo;b=2\<close> sets \<open>b=2\<close> only. An
  absent property, and one with \<open>actual \<le> 1\<close>, set nothing. In each case the function
  returns without reading past the bytes of the property.
\<close>

theorem bootargs_import:
  "grub_parse_cmdline (Some (''a=1;b=2;  c=3'' @ [NUL], 14)) env =
     Some (env @ [(''a'', ''1''), (''b'', ''2''), (''c'', ''3'')]) \<and>
   (cstring_buf (drop command args) = Some tok \<and> CHR ''='' \<notin> set tok \<longrightarrow>
      cmdline_command args command env = Some (args, env)) \<and>
   grub_parse_cmdline (Some (''foo;b=2'' @ [NUL], 8)) env = Some (env @ [(''b'', ''2'')]) \<and>
   grub_parse_cmdline None env = Some env \<and>
   (actual \<le> 1 \<longrightarrow> grub_parse_cmdline (Some (args, actual)) env = Some env)"
proof (intro conjI impI)
  show "grub_parse_cmdline (Some (''a=1;b=2;  c=3'' @ [NUL], 14)) env =
     Some (env @ [(''a'', ''1''), (''b'', ''2''), (''c'', ''3'')])"
    by code_simp simp
  show "grub_parse_cmdline (Some (''foo;b=2'' @ [NUL], 8)) env = Some (env @ [(''b'', ''2'')])"
    by code_simp
  show "grub_parse_cmdline None env = Some env"
    by (simp add: grub_parse_cmdline_def)
  show "grub_parse_cmdline (Some (args, actual)) env = Some env" if "actual \<le> 1"
    using that by (simp add: grub_parse_cmdline_def)
  show "cmdline_command args command env = Some (args, env)"
    if "cstring_buf (drop command args) = Some tok \<and> CHR ''='' \<notin> set tok"
    using that cmdline_command_no_equals by blast
qed

theorem bootargs_import_witness:
  "(cstring_buf (drop 0 (''foo'' @ [NUL] @ ''b=2'' @ [NUL])) = Some ''foo'' \<and>
    CHR ''='' \<notin> set ''foo'') \<and>
   cmdline_command (''foo'' @ [NUL] @ ''b=2'' @ [NUL]) 0 [] =
     Some (''foo'' @ [NUL] @ ''b=2'' @ [NUL], []) \<and>
   (1 :: int) \<le> 1 \<and>
   grub_parse_cmdline (Some ([NUL], 1)) [] = Some []"
proof -
  have t: "cstring_buf (drop 0 (''foo'' @ [NUL] @ ''b=2'' @ [NUL])) = Some ''foo'' \<and>
    CHR ''='' \<notin> set ''foo''"
    by code_simp
  have a: "(1 :: int) \<le> 1" by simp
  show ?thesis
    using bootargs_import [where command = 0 and args = "''foo'' @ [NUL] @ ''b=2'' @ [NUL]"
        and tok = "''foo''" and env = "[]" and actual = 1]
      bootargs_import [where args = "[NUL]" and env = "[]" and actual = 1] t a
    by blast
qed

end
